theory Spec2Isabelle
  imports Complex_Main
begin

section \<open>Python values used by the usage tracker\<close>

text \<open>
  The usage ledger of the bot lives in \<^verbatim>\<open>bot/usage_tracker.py\<close> (class
  \<^verbatim>\<open>UsageTracker\<close>); the budget gate lives in \<^verbatim>\<open>bot/telegram_bot.py\<close>.

  Numbers: Python's \<^verbatim>\<open>int\<close> is \<^typ>\<open>int\<close>. Python's \<^verbatim>\<open>float\<close> is an IEEE 754
  binary64 number. The model holds a finite float by its exact value, a rational, and
  every arithmetic operation computes the exact result and rounds it to the nearest
  double, ties to the even significand (\<open>double\<close>, with the gradual underflow of the
  subnormal numbers). So \<open>fadd\<close> is not associative, as \<^verbatim>\<open>+\<close> on floats is not. The
  arithmetic of the ledger is modelled in the finite range of the doubles: a result of
  2^1024 or more in magnitude (Python's \<^verbatim>\<open>inf\<close>, or its \<^verbatim>\<open>OverflowError\<close> for an
  \<^verbatim>\<open>int\<close> of that size) and the sign of zero are not represented there. The floats of
  the budget gate, where the code itself uses \<^verbatim>\<open>float('inf')\<close>, are values of
  \<open>pyfloat\<close>.

  Exceptions are values of \<open>py_error\<close>.
\<close>

datatype py_error = ValueError | TypeError | IndexError | KeyError | JSONDecodeError

definition round_half_even :: "rat \<Rightarrow> int" where
  "round_half_even x =
     (let f = \<lfloor>x\<rfloor>; r = x - of_int f
      in if r < 1 / 2 then f
         else if 1 / 2 < r then f + 1
         else if even f then f else f + 1)"

text \<open>The number of binary digits of a positive integer.\<close>

function bitlen :: "int \<Rightarrow> int" where
  "bitlen n = (if n \<le> 0 then 0 else 1 + bitlen (n div 2))"
  by pat_completeness auto
termination
  by (relation "measure nat") auto

definition pow2 :: "int \<Rightarrow> rat" where
  "pow2 e = (if 0 \<le> e then 2 ^ nat e else 1 / 2 ^ nat (- e))"

text \<open>For \<open>x > 0\<close>: the \<open>l\<close> with \<open>2^l \<le> x < 2^(l+1)\<close>.\<close>

definition floor_log2 :: "rat \<Rightarrow> int" where
  "floor_log2 x =
     (let l = bitlen (fst (quotient_of x)) - bitlen (snd (quotient_of x))
      in if x < pow2 l then l - 1 else l)"

text \<open>
  The double nearest to a rational: a significand of 53 binary digits, rounded half
  to even, at the exponent of the number, which is not less than that of the subnormal
  numbers.
\<close>

definition double :: "rat \<Rightarrow> rat" where
  "double x =
     (if x = 0 then 0
      else (let a = \<bar>x\<bar>;
                e = max (floor_log2 a - 52) (- 1074);
                m = round_half_even (a / pow2 e)
            in sgn x * of_int m * pow2 e))"

definition fadd :: "rat \<Rightarrow> rat \<Rightarrow> rat" where
  "fadd x y = double (x + y)"

definition fsub :: "rat \<Rightarrow> rat \<Rightarrow> rat" where
  "fsub x y = double (x - y)"

definition fmul :: "rat \<Rightarrow> rat \<Rightarrow> rat" where
  "fmul x y = double (x * y)"

text \<open>
  An \<^verbatim>\<open>int\<close> that meets a float in an operation is converted to the nearest double
  first.
\<close>

definition int_to_float :: "int \<Rightarrow> rat" where
  "int_to_float n = double (of_int n)"

text \<open>The code divides by the constants 1000 and 60 only.\<close>

definition fdiv :: "rat \<Rightarrow> rat \<Rightarrow> rat" where
  "fdiv x y = double (x / y)"

text \<open>
  \<^verbatim>\<open>round(x, n)\<close> on a float: CPython rounds the exact value of the double to \<open>n\<close>
  decimals, ties to the even neighbour, and returns the double nearest to that
  decimal.
\<close>

definition round_decimal :: "rat \<Rightarrow> nat \<Rightarrow> rat" where
  "round_decimal x n = of_int (round_half_even (x * 10 ^ n)) / 10 ^ n"

definition py_round :: "rat \<Rightarrow> nat \<Rightarrow> rat" where
  "py_round x n = double (round_decimal x n)"

text \<open>
  \<^verbatim>\<open>sum(xs)\<close> on floats starts from the integer 0 and adds from left to right, as
  CPython up to 3.11 does (from 3.12 on \<^verbatim>\<open>sum\<close> compensates the rounding errors of the
  partial sums, which can change the last binary digit of a sum of three or more
  floats). On integers \<^verbatim>\<open>sum\<close> is exact: \<open>sum_list\<close>.
\<close>

definition py_sum :: "rat list \<Rightarrow> rat" where
  "py_sum xs = foldl fadd 0 xs"

text \<open>A float that may be infinite or not a number.\<close>

datatype pyfloat = Finite rat | PosInf | NegInf | NaN

text \<open>
  The float of a rational: the nearest double, and an infinity when that has left the
  range of doubles, which is when its magnitude has reached 2^1024.
\<close>

definition to_float :: "rat \<Rightarrow> pyfloat" where
  "to_float x =
     (let d = double x
      in if d = 0 then Finite 0
         else if 1024 \<le> floor_log2 \<bar>d\<bar> then (if 0 < d then PosInf else NegInf)
         else Finite d)"

definition negate :: "pyfloat \<Rightarrow> pyfloat" where
  "negate x =
     (case x of Finite v \<Rightarrow> Finite (- v) | PosInf \<Rightarrow> NegInf | NegInf \<Rightarrow> PosInf | NaN \<Rightarrow> NaN)"

text \<open>
  The value of a float where the code needs a finite one. It is applied to the
  entries of the default price list only, which are finite.
\<close>

definition finite_value :: "pyfloat \<Rightarrow> rat" where
  "finite_value x = (case x of Finite v \<Rightarrow> v | PosInf \<Rightarrow> 0 | NegInf \<Rightarrow> 0 | NaN \<Rightarrow> 0)"

subsection \<open>Strings: decimal digits, \<^verbatim>\<open>str.split\<close>, \<^verbatim>\<open>float(...)\<close>\<close>

definition digit_char :: "nat \<Rightarrow> char" where
  "digit_char n = char_of (48 + n)"

definition digit_val :: "char \<Rightarrow> nat option" where
  "digit_val c =
     (let n = (of_char c :: nat) in if 48 \<le> n \<and> n \<le> 57 then Some (n - 48) else None)"

text \<open>\<^verbatim>\<open>str(n)\<close> for a non-negative integer, and for any integer.\<close>

fun str_nat :: "nat \<Rightarrow> string" where
  "str_nat n = (if n < 10 then [digit_char n] else str_nat (n div 10) @ [digit_char (n mod 10)])"

definition str_int :: "int \<Rightarrow> string" where
  "str_int i = (if i < 0 then CHR ''-'' # str_nat (nat (- i)) else str_nat (nat i))"

text \<open>
  \<^verbatim>\<open>s.split(sep)\<close> for a one-character separator: \<open>acc\<close> is the field being read
  (reversed). The empty string splits into one empty field, as in Python.
\<close>

fun split_acc :: "char \<Rightarrow> string \<Rightarrow> string \<Rightarrow> string list" where
  "split_acc sep acc [] = [rev acc]"
| "split_acc sep acc (c # cs) =
     (if c = sep then rev acc # split_acc sep [] cs else split_acc sep (c # acc) cs)"

definition str_split :: "string \<Rightarrow> char \<Rightarrow> string list" where
  "str_split s sep = split_acc sep [] s"

text \<open>The value of a string of decimal digits, \<open>None\<close> if a character is not a digit.\<close>

fun digits_val :: "nat \<Rightarrow> string \<Rightarrow> nat option" where
  "digits_val acc [] = Some acc"
| "digits_val acc (c # cs) =
     (case digit_val c of None \<Rightarrow> None | Some d \<Rightarrow> digits_val (10 * acc + d) cs)"

text \<open>
  \<^verbatim>\<open>float(s)\<close> on a string, after Python's grammar: white space is stripped at both
  ends; then an optional sign, and \<^verbatim>\<open>inf\<close>, \<^verbatim>\<open>infinity\<close> or \<^verbatim>\<open>nan\<close> in any case, or a
  decimal number with an optional exponent. Digits may be grouped by single
  underscores, and a digit must stand on at least one side of the point. The result
  is the float nearest to the decimal value; any other string raises \<open>ValueError\<close>.
  (White space here is the ASCII white space; a string is a list of bytes.)
\<close>

definition isspace :: "char \<Rightarrow> bool" where
  "isspace c = (let n = (of_char c :: nat) in (9 \<le> n \<and> n \<le> 13) \<or> (28 \<le> n \<and> n \<le> 32))"

definition strip :: "string \<Rightarrow> string" where
  "strip s = rev (dropWhile isspace (rev (dropWhile isspace s)))"

definition lower_char :: "char \<Rightarrow> char" where
  "lower_char c =
     (let n = (of_char c :: nat) in if 65 \<le> n \<and> n \<le> 90 then char_of (n + 32) else c)"

text \<open>
  A digit part \<^verbatim>\<open>digit (["_"] digit)*\<close>: its value and its number of digits.
  \<open>digitpart_rest\<close> reads what follows a digit.
\<close>

fun digitpart_rest :: "int \<Rightarrow> nat \<Rightarrow> string \<Rightarrow> (int \<times> nat) option" where
  "digitpart_rest v k [] = Some (v, k)"
| "digitpart_rest v k [c] =
     (case digit_val c of None \<Rightarrow> None | Some n \<Rightarrow> Some (10 * v + int n, Suc k))"
| "digitpart_rest v k (c # d # ds) =
     (if c = CHR ''_'' then
        (case digit_val d of None \<Rightarrow> None | Some n \<Rightarrow> digitpart_rest (10 * v + int n) (Suc k) ds)
      else
        (case digit_val c of
           None \<Rightarrow> None
         | Some n \<Rightarrow> digitpart_rest (10 * v + int n) (Suc k) (d # ds)))"

definition digitpart :: "string \<Rightarrow> (int \<times> nat) option" where
  "digitpart s =
     (case s of
        [] \<Rightarrow> None
      | c # cs \<Rightarrow> (case digit_val c of None \<Rightarrow> None | Some n \<Rightarrow> digitpart_rest (int n) 1 cs))"

text \<open>\<^verbatim>\<open>[digitpart] "." digitpart | digitpart ["."]\<close>, as an exact rational.\<close>

definition number :: "string \<Rightarrow> rat option" where
  "number s =
     (let ip = takeWhile (\<lambda>c. c \<noteq> CHR ''.'') s;
          rest = dropWhile (\<lambda>c. c \<noteq> CHR ''.'') s
      in case rest of
           [] \<Rightarrow> (case digitpart ip of None \<Rightarrow> None | Some (v, k) \<Rightarrow> Some (of_int v))
         | dot # fp \<Rightarrow>
             (if ip = [] then
                (case digitpart fp of
                   None \<Rightarrow> None
                 | Some (w, k) \<Rightarrow> Some (of_int w / 10 ^ k))
              else
                (case digitpart ip of
                   None \<Rightarrow> None
                 | Some (v, j) \<Rightarrow>
                     (if fp = [] then Some (of_int v)
                      else (case digitpart fp of
                              None \<Rightarrow> None
                            | Some (w, k) \<Rightarrow> Some (of_int v + of_int w / 10 ^ k))))))"

text \<open>What follows the \<^verbatim>\<open>e\<close>: an optional sign and a digit part.\<close>

definition exponent :: "string \<Rightarrow> int option" where
  "exponent s =
     (case s of
        [] \<Rightarrow> None
      | c # cs \<Rightarrow>
          (if c = CHR ''-'' then
             (case digitpart cs of None \<Rightarrow> None | Some (v, k) \<Rightarrow> Some (- v))
           else if c = CHR ''+'' then
             (case digitpart cs of None \<Rightarrow> None | Some (v, k) \<Rightarrow> Some v)
           else (case digitpart s of None \<Rightarrow> None | Some (v, k) \<Rightarrow> Some v)))"

definition pow10 :: "int \<Rightarrow> rat" where
  "pow10 e = (if 0 \<le> e then 10 ^ nat e else 1 / 10 ^ nat (- e))"

definition floatnumber :: "string \<Rightarrow> rat option" where
  "floatnumber s =
     (let is_e = (\<lambda>c. c = CHR ''e'' \<or> c = CHR ''E'');
          mant = takeWhile (\<lambda>c. \<not> is_e c) s;
          rest = dropWhile (\<lambda>c. \<not> is_e c) s
      in case rest of
           [] \<Rightarrow> number mant
         | e # ex \<Rightarrow>
             (case (number mant, exponent ex) of
                (Some m, Some k) \<Rightarrow> Some (m * pow10 k)
              | _ \<Rightarrow> None))"

definition absfloatvalue :: "string \<Rightarrow> pyfloat option" where
  "absfloatvalue s =
     (let l = map lower_char s
      in if l = ''inf'' \<or> l = ''infinity'' then Some PosInf
         else if l = ''nan'' then Some NaN
         else (case floatnumber s of None \<Rightarrow> None | Some x \<Rightarrow> Some (to_float x)))"

definition py_float :: "string \<Rightarrow> py_error + pyfloat" where
  "py_float s =
     (case strip s of
        [] \<Rightarrow> Inl ValueError
      | c # cs \<Rightarrow>
          (if c = CHR ''-'' then
             (case absfloatvalue cs of None \<Rightarrow> Inl ValueError | Some x \<Rightarrow> Inr (negate x))
           else if c = CHR ''+'' then
             (case absfloatvalue cs of None \<Rightarrow> Inl ValueError | Some x \<Rightarrow> Inr x)
           else
             (case absfloatvalue (c # cs) of None \<Rightarrow> Inl ValueError | Some x \<Rightarrow> Inr x)))"

text \<open>\<^verbatim>\<open>[float(x) for x in xs]\<close>: the first failing conversion raises.\<close>

fun float_all :: "string list \<Rightarrow> py_error + pyfloat list" where
  "float_all [] = Inr []"
| "float_all (x # xs) =
     (case py_float x of
        Inl e \<Rightarrow> Inl e
      | Inr v \<Rightarrow> (case float_all xs of Inl e \<Rightarrow> Inl e | Inr vs \<Rightarrow> Inr (v # vs)))"

text \<open>\<^verbatim>\<open>xs.index(x)\<close>: the first position of \<open>x\<close>, \<open>ValueError\<close> if there is none.\<close>

fun index_from :: "nat \<Rightarrow> 'a list \<Rightarrow> 'a \<Rightarrow> py_error + nat" where
  "index_from i [] x = Inl ValueError"
| "index_from i (y # ys) x = (if y = x then Inr i else index_from (Suc i) ys x)"

definition index :: "'a list \<Rightarrow> 'a \<Rightarrow> py_error + nat" where
  "index xs x = index_from 0 xs x"

subsection \<open>Calendar dates\<close>

text \<open>
  A \<^verbatim>\<open>datetime.date\<close> has a year, a month and a day. Python only builds dates that
  exist (\<open>valid_date\<close>). \<^verbatim>\<open>str(d)\<close> is \<^verbatim>\<open>YYYY-MM-DD\<close>; \<^verbatim>\<open>date.fromisoformat\<close>
  reads that format back and raises \<open>ValueError\<close> on anything else (the further
  ISO 8601 forms that Python 3.11 and later accept are outside the model).
  \<^verbatim>\<open>date.today()\<close> is an input of every operation: the parameter \<open>today\<close>.
\<close>

datatype date = Date (date_year: nat) (date_month: nat) (date_day: nat)

definition is_leap :: "nat \<Rightarrow> bool" where
  "is_leap y = (y mod 4 = 0 \<and> (y mod 100 \<noteq> 0 \<or> y mod 400 = 0))"

definition days_in_month :: "nat \<Rightarrow> nat \<Rightarrow> nat" where
  "days_in_month y m =
     (if m = 2 then (if is_leap y then 29 else 28)
      else if m = 4 \<or> m = 6 \<or> m = 9 \<or> m = 11 then 30 else 31)"

definition valid_date :: "date \<Rightarrow> bool" where
  "valid_date d =
     (1 \<le> date_year d \<and> date_year d \<le> 9999 \<and> 1 \<le> date_month d \<and> date_month d \<le> 12
      \<and> 1 \<le> date_day d \<and> date_day d \<le> days_in_month (date_year d) (date_month d))"

definition zfill2 :: "nat \<Rightarrow> string" where
  "zfill2 n = [digit_char (n div 10 mod 10), digit_char (n mod 10)]"

definition zfill4 :: "nat \<Rightarrow> string" where
  "zfill4 n = [digit_char (n div 1000 mod 10), digit_char (n div 100 mod 10),
               digit_char (n div 10 mod 10), digit_char (n mod 10)]"

definition str_date :: "date \<Rightarrow> string" where
  "str_date d = zfill4 (date_year d) @ ''-'' @ zfill2 (date_month d) @ ''-'' @ zfill2 (date_day d)"

definition fromisoformat :: "string \<Rightarrow> py_error + date" where
  "fromisoformat s =
     (if length s = 10 \<and> s ! 4 = CHR ''-'' \<and> s ! 7 = CHR ''-'' then
        (case (digits_val 0 (take 4 s), digits_val 0 (take 2 (drop 5 s)),
               digits_val 0 (drop 8 s)) of
           (Some y, Some m, Some d) \<Rightarrow>
             (if valid_date (Date y m d) then Inr (Date y m d) else Inl ValueError)
         | _ \<Rightarrow> Inl ValueError)
      else Inl ValueError)"

text \<open>\<^verbatim>\<open>year_month(date)\<close>: the first seven characters of \<^verbatim>\<open>str(date)\<close>.\<close>

definition year_month :: "date \<Rightarrow> string" where
  "year_month d = take 7 (str_date d)"

section \<open>The usage ledger (\<^verbatim>\<open>usage_tracker.py\<close>)\<close>

subsection \<open>Data\<close>

text \<open>
  A Python \<^verbatim>\<open>dict\<close> with string keys is an association list in insertion order;
  \<open>map_of\<close> is the lookup and \<open>dict_set\<close> is \<^verbatim>\<open>d[k] = v\<close>, which replaces the value
  of a key that is present and appends a new key at the end.
\<close>

type_synonym 'v dict = "(string \<times> 'v) list"

fun dict_set :: "string \<Rightarrow> 'v \<Rightarrow> 'v dict \<Rightarrow> 'v dict" where
  "dict_set k v [] = [(k, v)]"
| "dict_set k v (p # d) = (if fst p = k then (k, v) # d else p # dict_set k v d)"

definition dict_values :: "'v dict \<Rightarrow> 'v list" where
  "dict_values d = map snd d"

text \<open>
  \<^verbatim>\<open>self.usage\<close>, the dictionary that is also the JSON document of the user's file:
  \<^verbatim>\<open>{"user_name": ..., "current_cost": {"day", "month", "all_time", "last_update"},
  "usage_history": {"chat_tokens", "transcription_seconds", "number_images"}}\<close>.
  The key \<^verbatim>\<open>all_time\<close> may be absent (the code reads it with \<^verbatim>\<open>.get\<close>), so it is an
  option; \<^verbatim>\<open>last_update\<close> is the string the file holds. The costs and the seconds are
  floats, held by their exact values; the methods add to them with \<open>fadd\<close>.
\<close>

record cost_rec =
  day :: rat
  month :: rat
  all_time :: "rat option"
  last_update :: string

record history_rec =
  chat_tokens :: "int dict"
  transcription_seconds :: "rat dict"
  number_images :: "int list dict"

record usage_rec =
  user_name :: string
  current_cost :: cost_rec
  usage_history :: history_rec

text \<open>
  The identity of a ledger: a Telegram user id (an integer) or the string
  \<^verbatim>\<open>'guests'\<close>; \<open>str_ident\<close> is how the f-string of the file name prints it.
\<close>

datatype ident = UserId int | Guests

definition str_ident :: "ident \<Rightarrow> string" where
  "str_ident i = (case i of UserId n \<Rightarrow> str_int n | Guests \<Rightarrow> ''guests'')"

record UsageTracker =
  user_id :: ident
  logs_dir :: string
  user_file :: string
  usage :: usage_rec

text \<open>
  The durable records: a file system maps a path to the content of the file there.
  A content is modelled by what \<^verbatim>\<open>json.load\<close> makes of it: \<open>Malformed\<close> is a text
  that is not a JSON document (\<^verbatim>\<open>json.load\<close> raises \<^verbatim>\<open>JSONDecodeError\<close>), and
  \<open>Document u\<close> is the text \<^verbatim>\<open>json.dump\<close> writes for the usage dictionary \<open>u\<close>, which
  \<^verbatim>\<open>json.load\<close> reads back as \<open>u\<close>. Failing writes and the creation of the logs
  directory are outside the model.
\<close>

datatype file_content = Malformed | Document usage_rec

type_synonym disk = "string \<Rightarrow> file_content option"

text \<open>
  An operation on a tracker runs in a state: the disk and the tracker object. It
  returns the exception it raised, if any, with the state it left behind.
\<close>

type_synonym tstate = "disk \<times> UsageTracker"

subsection \<open>\<^verbatim>\<open>UsageTracker.__init__\<close>\<close>

definition UsageTracker_init ::
  "date \<Rightarrow> disk \<Rightarrow> ident \<Rightarrow> string \<Rightarrow> string \<Rightarrow> py_error + UsageTracker" where
  "UsageTracker_init today fs uid uname dir =
     (let path = dir @ ''/'' @ str_ident uid @ ''.json''
      in case fs path of
           Some Malformed \<Rightarrow> Inl JSONDecodeError
         | Some (Document u) \<Rightarrow>
             Inr \<lparr>user_id = uid, logs_dir = dir, user_file = path, usage = u\<rparr>
         | None \<Rightarrow>
             Inr \<lparr>user_id = uid, logs_dir = dir, user_file = path,
                  usage = \<lparr>user_name = uname,
                            current_cost = \<lparr>day = 0, month = 0, all_time = Some 0,
                                             last_update = str_date today\<rparr>,
                            usage_history = \<lparr>chat_tokens = [], transcription_seconds = [],
                                              number_images = []\<rparr>\<rparr>\<rparr>)"

definition default_logs_dir :: string where
  "default_logs_dir = ''usage_logs''"

subsection \<open>\<^verbatim>\<open>initialize_all_time_cost\<close>\<close>

text \<open>\<^verbatim>\<open>zip(*xss)\<close>: the columns of \<open>xss\<close>, as many as the shortest row has.\<close>

fun min_length :: "'a list list \<Rightarrow> nat" where
  "min_length [] = 0"
| "min_length [xs] = length xs"
| "min_length (xs # xss) = min (length xs) (min_length xss)"

definition zip_star :: "'a list list \<Rightarrow> 'a list list" where
  "zip_star xss = map (\<lambda>i. map (\<lambda>xs. xs ! i) xss) [0 ..< min_length xss]"

text \<open>
  \<^verbatim>\<open>initialize_all_time_cost(self, tokens_price=0.002,
  image_prices="0.016,0.018,0.02", minute_price=0.006)\<close>: every call in the
  repository leaves the three parameters to their defaults, and the definition is the
  method at these defaults.
\<close>

definition initialize_all_time_cost :: "usage_rec \<Rightarrow> py_error + rat" where
  "initialize_all_time_cost u =
     (let tokens_price = double (2 / 1000);
          image_prices = ''0.016,0.018,0.02'';
          minute_price = double (6 / 1000);
          total_tokens = sum_list (dict_values (chat_tokens (usage_history u)));
          token_cost = py_round (fdiv (fmul (int_to_float total_tokens) tokens_price) 1000) 6;
          total_images = map sum_list (zip_star (dict_values (number_images (usage_history u))))
      in case float_all (str_split image_prices CHR '','') of
           Inl e \<Rightarrow> Inl e
         | Inr image_prices_list \<Rightarrow>
             (let image_cost =
                    py_sum (map (\<lambda>(count, price). fmul (int_to_float count) (finite_value price))
                                (zip total_images image_prices_list));
                  total_transcription_seconds =
                    py_sum (dict_values (transcription_seconds (usage_history u)));
                  transcription_cost =
                    py_round (fdiv (fmul total_transcription_seconds minute_price) 60) 2;
                  all_time_cost = fadd (fadd token_cost transcription_cost) image_cost
              in Inr all_time_cost))"

subsection \<open>\<^verbatim>\<open>add_chat_tokens\<close>\<close>

definition add_chat_tokens ::
  "date \<Rightarrow> int \<Rightarrow> rat \<Rightarrow> tstate \<Rightarrow> py_error option \<times> tstate" where
  "add_chat_tokens today tokens tokens_price st =
     (let fs = fst st; self = snd st; u = usage self; cc = current_cost u
      in case fromisoformat (last_update cc) of
           Inl e \<Rightarrow> (Some e, st)
         | Inr last_upd \<Rightarrow>
             (let token_cost = py_round (fdiv (fmul (int_to_float tokens) tokens_price) 1000) 6
              in case initialize_all_time_cost u of
                   Inl e \<Rightarrow> (Some e, st)
                 | Inr hist_cost \<Rightarrow>
                     (let cc1 = cc\<lparr>all_time :=
                                  Some (fadd (case all_time cc of
                                                None \<Rightarrow> hist_cost | Some a \<Rightarrow> a)
                                             token_cost)\<rparr>;
                          cc2 = (if today = last_upd
                                 then cc1\<lparr>day := fadd (day cc1) token_cost,
                                          month := fadd (month cc1) token_cost\<rparr>
                                 else (if date_month today = date_month last_upd
                                       then cc1\<lparr>month := fadd (month cc1) token_cost\<rparr>
                                       else cc1\<lparr>month := token_cost\<rparr>)
                                      \<lparr>day := token_cost, last_update := str_date today\<rparr>);
                          h = usage_history u;
                          h' = (case map_of (chat_tokens h) (str_date today) of
                                  Some t \<Rightarrow>
                                    h\<lparr>chat_tokens :=
                                        dict_set (str_date today) (t + tokens) (chat_tokens h)\<rparr>
                                | None \<Rightarrow>
                                    h\<lparr>chat_tokens :=
                                        dict_set (str_date today) tokens (chat_tokens h)\<rparr>);
                          u' = u\<lparr>current_cost := cc2, usage_history := h'\<rparr>
                      in (None, (fs(user_file self \<mapsto> Document u'), self\<lparr>usage := u'\<rparr>)))))"

text \<open>
  \<^verbatim>\<open>get_current_token_usage\<close>: the tokens of today, and the tokens of every history
  entry whose key starts with the year and month of today.
\<close>

definition startswith :: "string \<Rightarrow> string \<Rightarrow> bool" where
  "startswith s p = (take (length p) s = p)"

definition get_current_token_usage :: "date \<Rightarrow> UsageTracker \<Rightarrow> int \<times> int" where
  "get_current_token_usage today self =
     (let ct = chat_tokens (usage_history (usage self));
          usage_day = (case map_of ct (str_date today) of Some t \<Rightarrow> t | None \<Rightarrow> 0);
          month_prefix = take 7 (str_date today);
          usage_month = sum_list (map snd (filter (\<lambda>(k, t). startswith k month_prefix) ct))
      in (usage_day, usage_month))"

subsection \<open>\<^verbatim>\<open>add_image_request\<close>\<close>

text \<open>
  The parameter \<^verbatim>\<open>image_prices\<close> is subscripted: the bot passes a list of floats
  (\<open>PriceList\<close>), and the default value of the parameter is the string
  \<^verbatim>\<open>"0.016,0.018,0.02"\<close> (\<open>PriceStr\<close>), whose subscript is a one-character string.
  Adding a string to a float raises \<^verbatim>\<open>TypeError\<close>.
\<close>

datatype prices = PriceStr string | PriceList "rat list"

datatype price_val = CostStr string | CostFloat rat

definition subscript :: "prices \<Rightarrow> nat \<Rightarrow> py_error + price_val" where
  "subscript p i =
     (case p of
        PriceStr s \<Rightarrow> if i < length s then Inr (CostStr [s ! i]) else Inl IndexError
      | PriceList xs \<Rightarrow> if i < length xs then Inr (CostFloat (xs ! i)) else Inl IndexError)"

definition sizes :: "string list" where
  "sizes = [''256x256'', ''512x512'', ''1024x1024'']"

definition add_image_request ::
  "date \<Rightarrow> string \<Rightarrow> prices \<Rightarrow> tstate \<Rightarrow> py_error option \<times> tstate" where
  "add_image_request today image_size image_prices st =
     (let fs = fst st; self = snd st; u = usage self; cc = current_cost u
      in case index sizes image_size of
           Inl e \<Rightarrow> (Some e, st)
         | Inr requested_size \<Rightarrow>
       (case subscript image_prices requested_size of
           Inl e \<Rightarrow> (Some e, st)
         | Inr image_cost_val \<Rightarrow>
       (case fromisoformat (last_update cc) of
           Inl e \<Rightarrow> (Some e, st)
         | Inr last_upd \<Rightarrow>
       (case initialize_all_time_cost u of
           Inl e \<Rightarrow> (Some e, st)
         | Inr hist_cost \<Rightarrow>
       (case image_cost_val of
           CostStr c \<Rightarrow> (Some TypeError, st)
         | CostFloat image_cost \<Rightarrow>
             (let cc1 = cc\<lparr>all_time :=
                          Some (fadd (case all_time cc of None \<Rightarrow> hist_cost | Some a \<Rightarrow> a)
                                     image_cost)\<rparr>;
                  cc2 = (if today = last_upd
                         then cc1\<lparr>day := fadd (day cc1) image_cost,
                                  month := fadd (month cc1) image_cost\<rparr>
                         else (if date_month today = date_month last_upd
                               then cc1\<lparr>month := fadd (month cc1) image_cost\<rparr>
                               else cc1\<lparr>month := image_cost\<rparr>)
                              \<lparr>day := image_cost, last_update := str_date today\<rparr>);
                  u1 = u\<lparr>current_cost := cc2\<rparr>;
                  h = usage_history u
              in case map_of (number_images h) (str_date today) of
                   Some v \<Rightarrow>
                     (if requested_size < length v then
                        (let h' = h\<lparr>number_images :=
                                     dict_set (str_date today)
                                       (v[requested_size := v ! requested_size + 1])
                                       (number_images h)\<rparr>;
                             u' = u1\<lparr>usage_history := h'\<rparr>
                         in (None, (fs(user_file self \<mapsto> Document u'), self\<lparr>usage := u'\<rparr>)))
                      else (Some IndexError, (fs, self\<lparr>usage := u1\<rparr>)))
                 | None \<Rightarrow>
                     (let v = [0, 0, 0];
                          h' = h\<lparr>number_images :=
                                     dict_set (str_date today)
                                       (v[requested_size := v ! requested_size + 1])
                                       (number_images h)\<rparr>;
                          u' = u1\<lparr>usage_history := h'\<rparr>
                      in (None, (fs(user_file self \<mapsto> Document u'), self\<lparr>usage := u'\<rparr>)))))))))"

text \<open>The call that leaves \<^verbatim>\<open>image_prices\<close> to its default.\<close>

definition default_image_prices :: prices where
  "default_image_prices = PriceStr ''0.016,0.018,0.02''"

subsection \<open>\<^verbatim>\<open>add_transcription_seconds\<close>\<close>

definition add_transcription_seconds ::
  "date \<Rightarrow> rat \<Rightarrow> rat \<Rightarrow> tstate \<Rightarrow> py_error option \<times> tstate" where
  "add_transcription_seconds today seconds minute_price st =
     (let fs = fst st; self = snd st; u = usage self; cc = current_cost u
      in case fromisoformat (last_update cc) of
           Inl e \<Rightarrow> (Some e, st)
         | Inr last_upd \<Rightarrow>
             (let transcription_price = py_round (fdiv (fmul seconds minute_price) 60) 2
              in case initialize_all_time_cost u of
                   Inl e \<Rightarrow> (Some e, st)
                 | Inr hist_cost \<Rightarrow>
                     (let cc1 = cc\<lparr>all_time :=
                                  Some (fadd (case all_time cc of
                                                None \<Rightarrow> hist_cost | Some a \<Rightarrow> a)
                                             transcription_price)\<rparr>;
                          cc2 = (if today = last_upd
                                 then cc1\<lparr>day := fadd (day cc1) transcription_price,
                                          month := fadd (month cc1) transcription_price\<rparr>
                                 else (if date_month today = date_month last_upd
                                       then cc1\<lparr>month := fadd (month cc1) transcription_price\<rparr>
                                       else cc1\<lparr>month := transcription_price\<rparr>)
                                      \<lparr>day := transcription_price,
                                       last_update := str_date today\<rparr>);
                          h = usage_history u;
                          h' = (case map_of (transcription_seconds h) (str_date today) of
                                  Some t \<Rightarrow>
                                    h\<lparr>transcription_seconds :=
                                        dict_set (str_date today) (fadd t seconds)
                                          (transcription_seconds h)\<rparr>
                                | None \<Rightarrow>
                                    h\<lparr>transcription_seconds :=
                                        dict_set (str_date today) seconds
                                          (transcription_seconds h)\<rparr>);
                          u' = u\<lparr>current_cost := cc2, usage_history := h'\<rparr>
                      in (None, (fs(user_file self \<mapsto> Document u'), self\<lparr>usage := u'\<rparr>)))))"

subsection \<open>\<^verbatim>\<open>get_current_cost\<close>\<close>

text \<open>
  The method assigns to nothing and opens no file, so the state it returns is the
  state it was given. Its result is the dictionary
  \<^verbatim>\<open>{"cost_today": ..., "cost_month": ..., "cost_all_time": ...}\<close>.
\<close>

definition get_current_cost :: "date \<Rightarrow> tstate \<Rightarrow> (py_error + rat dict) \<times> tstate" where
  "get_current_cost today st =
     (let self = snd st; cc = current_cost (usage self)
      in case fromisoformat (last_update cc) of
           Inl e \<Rightarrow> (Inl e, st)
         | Inr last_upd \<Rightarrow>
             (let cost_day = (if today = last_upd then day cc else 0);
                  cost_month = (if today = last_upd then month cc
                                else if date_month today = date_month last_upd then month cc
                                else 0)
              in case initialize_all_time_cost (usage self) of
                   Inl e \<Rightarrow> (Inl e, st)
                 | Inr hist_cost \<Rightarrow>
                     (let cost_all_time = (case all_time cc of None \<Rightarrow> hist_cost | Some a \<Rightarrow> a)
                      in (Inr [(''cost_today'', cost_day), (''cost_month'', cost_month),
                               (''cost_all_time'', cost_all_time)], st))))"

subsection \<open>Events as the bot reports them\<close>

text \<open>
  The bot calls the three methods with the prices of its configuration:
  \<^verbatim>\<open>add_chat_tokens(total_tokens, self.config['token_price'])\<close>,
  \<^verbatim>\<open>add_transcription_seconds(duration_seconds, self.config['transcription_price'])\<close>
  and \<^verbatim>\<open>add_image_request(image_size, self.config['image_prices'])\<close>, the last with
  a list of floats. An event is one such call; a run of events stops at the first
  exception.
\<close>

record price_table =
  cfg_token_price :: rat
  cfg_transcription_price :: rat
  cfg_image_prices :: "rat list"

datatype event = ChatTokens int | TranscriptionSeconds rat | ImageRequest string

definition apply_event ::
  "price_table \<Rightarrow> date \<Rightarrow> event \<Rightarrow> tstate \<Rightarrow> py_error option \<times> tstate" where
  "apply_event cfg today ev st =
     (case ev of
        ChatTokens tokens \<Rightarrow> add_chat_tokens today tokens (cfg_token_price cfg) st
      | TranscriptionSeconds seconds \<Rightarrow>
          add_transcription_seconds today seconds (cfg_transcription_price cfg) st
      | ImageRequest image_size \<Rightarrow>
          add_image_request today image_size (PriceList (cfg_image_prices cfg)) st)"

fun apply_events ::
  "price_table \<Rightarrow> (date \<times> event) list \<Rightarrow> tstate \<Rightarrow> py_error option \<times> tstate" where
  "apply_events cfg [] st = (None, st)"
| "apply_events cfg (de # des) st =
     (case apply_event cfg (fst de) (snd de) st of
        (Some e, st') \<Rightarrow> (Some e, st')
      | (None, st') \<Rightarrow> apply_events cfg des st')"

text \<open>
  The cost each method computes for its event, before it touches the ledger. An
  image request that raises (unknown size, price list too short) adds no cost.
\<close>

definition event_cost :: "price_table \<Rightarrow> event \<Rightarrow> rat" where
  "event_cost cfg ev =
     (case ev of
        ChatTokens tokens \<Rightarrow>
          py_round (fdiv (fmul (int_to_float tokens) (cfg_token_price cfg)) 1000) 6
      | TranscriptionSeconds seconds \<Rightarrow>
          py_round (fdiv (fmul seconds (cfg_transcription_price cfg)) 60) 2
      | ImageRequest image_size \<Rightarrow>
          (case index sizes image_size of
             Inl e \<Rightarrow> 0
           | Inr requested_size \<Rightarrow>
               (if requested_size < length (cfg_image_prices cfg)
                then cfg_image_prices cfg ! requested_size else 0)))"

text \<open>
  The prices the functions take by default, as a configuration of the bot: the
  floats \<^verbatim>\<open>0.002\<close>, \<^verbatim>\<open>0.006\<close> and \<^verbatim>\<open>[0.016, 0.018, 0.02]\<close>.
\<close>

definition default_prices :: price_table where
  "default_prices =
     \<lparr>cfg_token_price = double (2 / 1000), cfg_transcription_price = double (6 / 1000),
      cfg_image_prices = [double (16 / 1000), double (18 / 1000), double (2 / 100)]\<rparr>"

subsection \<open>Example states\<close>

text \<open>The example document of the class's docstring, and a tracker that holds it.\<close>

definition example_usage :: usage_rec where
  "example_usage =
     \<lparr>user_name = ''@user_name'',
      current_cost = \<lparr>day = double (45 / 100), month = double (323 / 100),
                       all_time = Some (double (323 / 100)), last_update = ''2023-03-14''\<rparr>,
      usage_history =
        \<lparr>chat_tokens = [(''2023-03-13'', 520), (''2023-03-14'', 1532)],
         transcription_seconds = [(''2023-03-13'', 125), (''2023-03-14'', 64)],
         number_images = [(''2023-03-12'', [0, 2, 3]), (''2023-03-13'', [1, 2, 3]),
                          (''2023-03-14'', [0, 1, 2])]\<rparr>\<rparr>"

definition example_tracker :: UsageTracker where
  "example_tracker =
     \<lparr>user_id = UserId 42, logs_dir = ''usage_logs'',
      user_file = ''usage_logs/42.json'', usage = example_usage\<rparr>"

definition example_disk :: disk where
  "example_disk = [''usage_logs/42.json'' \<mapsto> Document example_usage]"

definition example_state :: tstate where
  "example_state = (example_disk, example_tracker)"

text \<open>A disk with no file, and the ledger the constructor builds on it.\<close>

definition empty_disk :: disk where
  "empty_disk = (\<lambda>path. None)"

definition fresh_usage :: "date \<Rightarrow> string \<Rightarrow> usage_rec" where
  "fresh_usage today uname =
     \<lparr>user_name = uname,
      current_cost = \<lparr>day = 0, month = 0, all_time = Some 0, last_update = str_date today\<rparr>,
      usage_history = \<lparr>chat_tokens = [], transcription_seconds = [], number_images = []\<rparr>\<rparr>"

definition fresh_state :: "date \<Rightarrow> tstate" where
  "fresh_state today =
     (empty_disk,
      \<lparr>user_id = UserId 42, logs_dir = ''usage_logs'', user_file = ''usage_logs/42.json'',
       usage = fresh_usage today ''@user_name''\<rparr>)"

subsection \<open>The aggregate step shared by the three methods\<close>

text \<open>
  The three \<^verbatim>\<open>add_...\<close> methods each spell out the same update of
  \<^verbatim>\<open>current_cost\<close>; \<open>rollover\<close> names it, so that the properties of the update are
  proved once (the lemmas \<open>add_chat_tokens_step\<close>, \<open>add_transcription_seconds_step\<close>
  and \<open>add_image_request_step\<close> show that each method performs it). \<open>commit\<close> is the
  end of each method: the new dictionary is stored in the tracker and written to the
  user's file.
\<close>

abbreviation ledger :: "tstate \<Rightarrow> cost_rec" where
  "ledger st \<equiv> current_cost (usage (snd st))"

abbreviation history :: "tstate \<Rightarrow> history_rec" where
  "history st \<equiv> usage_history (usage (snd st))"

definition rollover :: "date \<Rightarrow> date \<Rightarrow> rat \<Rightarrow> rat \<Rightarrow> cost_rec \<Rightarrow> cost_rec" where
  "rollover today last_upd cost hist_cost cc =
     (let cc1 = cc\<lparr>all_time :=
                  Some (fadd (case all_time cc of None \<Rightarrow> hist_cost | Some a \<Rightarrow> a) cost)\<rparr>
      in if today = last_upd
         then cc1\<lparr>day := fadd (day cc1) cost, month := fadd (month cc1) cost\<rparr>
         else (if date_month today = date_month last_upd
               then cc1\<lparr>month := fadd (month cc1) cost\<rparr>
               else cc1\<lparr>month := cost\<rparr>)
              \<lparr>day := cost, last_update := str_date today\<rparr>)"

definition commit :: "tstate \<Rightarrow> cost_rec \<Rightarrow> history_rec \<Rightarrow> tstate" where
  "commit st cc h =
     (let u' = (usage (snd st))\<lparr>current_cost := cc, usage_history := h\<rparr>
      in ((fst st)(user_file (snd st) \<mapsto> Document u'), (snd st)\<lparr>usage := u'\<rparr>))"

text \<open>The value of \<^verbatim>\<open>self.initialize_all_time_cost()\<close>, which never raises.\<close>

definition history_cost :: "usage_rec \<Rightarrow> rat" where
  "history_cost u = (case initialize_all_time_cost u of Inr c \<Rightarrow> c | Inl e \<Rightarrow> 0)"


text \<open>
  The vector \<^verbatim>\<open>add_image_request\<close> increments: the one the history holds for today,
  or the \<^verbatim>\<open>[0, 0, 0]\<close> it creates.
\<close>

definition image_vector :: "date \<Rightarrow> history_rec \<Rightarrow> int list" where
  "image_vector today h =
     (case map_of (number_images h) (str_date today) of Some v \<Rightarrow> v | None \<Rightarrow> [0, 0, 0])"


subsection \<open>Serializing and the states the operations reach\<close>

text \<open>
  \<open>dump\<close> is the last statement of every \<^verbatim>\<open>add_...\<close> method on its own:
  \<^verbatim>\<open>with open(self.user_file, "w") as outfile: json.dump(self.usage, outfile)\<close>.
  A state is reachable when the constructor built the tracker from the disk and the
  methods of the tracker were called on it, with any arguments and on any days.
\<close>

definition dump :: "tstate \<Rightarrow> disk" where
  "dump st = (fst st)(user_file (snd st) \<mapsto> Document (usage (snd st)))"

inductive reachable :: "tstate \<Rightarrow> bool" where
  constructed:
    "UsageTracker_init today fs uid uname dir = Inr self \<Longrightarrow> reachable (fs, self)"
| chat:
    "reachable st \<Longrightarrow> reachable (snd (add_chat_tokens today tokens price st))"
| image:
    "reachable st \<Longrightarrow> reachable (snd (add_image_request today image_size prices st))"
| transcription:
    "reachable st \<Longrightarrow> reachable (snd (add_transcription_seconds today seconds price st))"
| cost:
    "reachable st \<Longrightarrow> reachable (snd (get_current_cost today st))"

text \<open>
  The constructor sets \<^verbatim>\<open>self.user_file = f"{logs_dir}/{user_id}.json"\<close>, and no method
  assigns to it afterwards.
\<close>

definition well_placed :: "UsageTracker \<Rightarrow> bool" where
  "well_placed t = (user_file t = logs_dir t @ ''/'' @ str_ident (user_id t) @ ''.json'')"

subsection \<open>The cost of a day, derived again from the history\<close>

text \<open>
  The specification compares the cached day total with the cost derived from the
  history entries dated today, computed the way \<^verbatim>\<open>initialize_all_time_cost\<close> computes
  the cost of the full history: the tokens priced per thousand and rounded to 6
  decimals, the seconds priced per minute and rounded to 2 decimals, and the image
  counts of each size times the price of the size. \<open>todays_history_cost\<close> follows
  these words, with the prices of the configuration and the float arithmetic of the
  method; it is not a function of the repository.
\<close>

definition tokens_on :: "date \<Rightarrow> history_rec \<Rightarrow> int" where
  "tokens_on today h = (case map_of (chat_tokens h) (str_date today) of Some t \<Rightarrow> t | None \<Rightarrow> 0)"

definition seconds_on :: "date \<Rightarrow> history_rec \<Rightarrow> rat" where
  "seconds_on today h =
     (case map_of (transcription_seconds h) (str_date today) of Some s \<Rightarrow> s | None \<Rightarrow> 0)"

definition images_on :: "date \<Rightarrow> history_rec \<Rightarrow> int list" where
  "images_on today h = (case map_of (number_images h) (str_date today) of Some v \<Rightarrow> v | None \<Rightarrow> [])"

definition todays_history_cost :: "price_table \<Rightarrow> date \<Rightarrow> history_rec \<Rightarrow> rat" where
  "todays_history_cost cfg today h =
     (let token_cost =
            py_round (fdiv (fmul (int_to_float (tokens_on today h)) (cfg_token_price cfg)) 1000) 6;
          transcription_cost =
            py_round (fdiv (fmul (seconds_on today h) (cfg_transcription_price cfg)) 60) 2;
          image_cost =
            py_sum (map (\<lambda>(count, price). fmul (int_to_float count) price)
                        (zip (images_on today h) (cfg_image_prices cfg)))
      in fadd (fadd token_cost transcription_cost) image_cost)"

text \<open>
  The running sum of a ledger: \<^verbatim>\<open>total += cost\<close> for each cost in turn, each addition
  rounded as floats are.
\<close>

definition running_sum :: "rat \<Rightarrow> rat list \<Rightarrow> rat" where
  "running_sum start costs = foldl fadd start costs"

section \<open>The budget gate (\<^verbatim>\<open>telegram_bot.py\<close>)\<close>

text \<open>
  The configuration entries the gate reads, as the strings and the number the bot
  holds them; the part of a Telegram update it reads (the sender's id and name).
  \<^verbatim>\<open>self.usage\<close> of the bot maps an identity to its tracker.
\<close>

record config =
  admin_user_ids :: string
  allowed_user_ids :: string
  user_budgets :: string
  budget_period :: string
  guest_budget :: rat

record update =
  from_user_id :: int
  from_user_name :: string

type_synonym bstate = "disk \<times> (ident \<rightharpoonup> UsageTracker)"

text \<open>
  The remaining budget is a float that may be \<^verbatim>\<open>float('inf')\<close>: the subtraction of a
  cost and the comparison with 0 on \<open>pyfloat\<close>.
\<close>

definition minus_cost :: "pyfloat \<Rightarrow> rat \<Rightarrow> pyfloat" where
  "minus_cost a c =
     (case a of Finite x \<Rightarrow> Finite (fsub x c) | PosInf \<Rightarrow> PosInf | NegInf \<Rightarrow> NegInf | NaN \<Rightarrow> NaN)"

definition positive :: "pyfloat \<Rightarrow> bool" where
  "positive a = (case a of Finite x \<Rightarrow> 0 < x | PosInf \<Rightarrow> True | NegInf \<Rightarrow> False | NaN \<Rightarrow> False)"

definition budget_cost_map :: "string dict" where
  "budget_cost_map =
     [(''monthly'', ''cost_month''), (''daily'', ''cost_today''), (''all-time'', ''cost_all_time'')]"

definition is_admin :: "config \<Rightarrow> update \<Rightarrow> bool" where
  "is_admin cfg upd =
     (if admin_user_ids cfg = ''-'' then False
      else (let admin_ids = str_split (admin_user_ids cfg) CHR '',''
            in if str_int (from_user_id upd) \<in> set admin_ids then True else False))"

text \<open>\<^verbatim>\<open>get_user_budget\<close> returns a float, or \<^verbatim>\<open>None\<close> for a user not on the list.\<close>

definition get_user_budget :: "config \<Rightarrow> update \<Rightarrow> py_error + pyfloat option" where
  "get_user_budget cfg upd =
     (if is_admin cfg upd \<or> user_budgets cfg = ''*'' then Inr (Some PosInf)
      else
        (let budgets = str_split (user_budgets cfg) CHR '',''
         in if allowed_user_ids cfg = ''*'' then
              (case py_float (budgets ! 0) of
                 Inl e \<Rightarrow> Inl e
               | Inr x \<Rightarrow> Inr (Some x))
            else
              (let uid = from_user_id upd;
                   allowed = str_split (allowed_user_ids cfg) CHR '',''
               in if str_int uid \<in> set allowed then
                    (case index allowed (str_int uid) of
                       Inl e \<Rightarrow> Inl e
                     | Inr user_index \<Rightarrow>
                         (if length budgets \<le> user_index then Inr (Some (Finite 0))
                          else (case py_float (budgets ! user_index) of
                                  Inl e \<Rightarrow> Inl e
                                | Inr x \<Rightarrow> Inr (Some x))))
                  else Inr None)))"

text \<open>
  \<^verbatim>\<open>if key not in self.usage: self.usage[key] = UsageTracker(key, name)\<close>, which the
  gate runs for the sender and for \<^verbatim>\<open>'guests'\<close>.
\<close>

definition ensure_tracker :: "date \<Rightarrow> ident \<Rightarrow> string \<Rightarrow> bstate \<Rightarrow> py_error + bstate" where
  "ensure_tracker today key uname bst =
     (case snd bst key of
        Some t \<Rightarrow> Inr bst
      | None \<Rightarrow>
          (case UsageTracker_init today (fst bst) key uname default_logs_dir of
             Inl e \<Rightarrow> Inl e
           | Inr t \<Rightarrow> Inr (fst bst, (snd bst)(key \<mapsto> t))))"

text \<open>
  \<^verbatim>\<open>self.usage[key].get_current_cost()[self.budget_cost_map[budget_period]]\<close>: the
  method call is evaluated first, then the two subscripts.
\<close>

definition period_cost :: "config \<Rightarrow> date \<Rightarrow> ident \<Rightarrow> bstate \<Rightarrow> py_error + rat" where
  "period_cost cfg today key bst =
     (case snd bst key of
        None \<Rightarrow> Inl KeyError
      | Some t \<Rightarrow>
          (case fst (get_current_cost today (fst bst, t)) of
             Inl e \<Rightarrow> Inl e
           | Inr report \<Rightarrow>
               (case map_of budget_cost_map (budget_period cfg) of
                  None \<Rightarrow> Inl KeyError
                | Some k \<Rightarrow>
                    (case map_of report k of None \<Rightarrow> Inl KeyError | Some c \<Rightarrow> Inr c))))"

definition get_remaining_budget ::
  "config \<Rightarrow> date \<Rightarrow> update \<Rightarrow> bstate \<Rightarrow> (py_error + pyfloat) \<times> bstate" where
  "get_remaining_budget cfg today upd bst =
     (let uid = UserId (from_user_id upd)
      in case ensure_tracker today uid (from_user_name upd) bst of
           Inl e \<Rightarrow> (Inl e, bst)
         | Inr bst1 \<Rightarrow>
             (case get_user_budget cfg upd of
                Inl e \<Rightarrow> (Inl e, bst1)
              | Inr (Some user_budget) \<Rightarrow>
                  (case period_cost cfg today uid bst1 of
                     Inl e \<Rightarrow> (Inl e, bst1)
                   | Inr c \<Rightarrow> (Inr (minus_cost user_budget c), bst1))
              | Inr None \<Rightarrow>
                  (case ensure_tracker today Guests ''all guest users in group chats'' bst1 of
                     Inl e \<Rightarrow> (Inl e, bst1)
                   | Inr bst2 \<Rightarrow>
                       (case period_cost cfg today Guests bst2 of
                          Inl e \<Rightarrow> (Inl e, bst2)
                        | Inr c \<Rightarrow> (Inr (Finite (fsub (guest_budget cfg) c)), bst2)))))"

definition is_within_budget ::
  "config \<Rightarrow> date \<Rightarrow> update \<Rightarrow> bstate \<Rightarrow> (py_error + bool) \<times> bstate" where
  "is_within_budget cfg today upd bst =
     (let uid = UserId (from_user_id upd)
      in case ensure_tracker today uid (from_user_name upd) bst of
           Inl e \<Rightarrow> (Inl e, bst)
         | Inr bst1 \<Rightarrow>
             (case get_remaining_budget cfg today upd bst1 of
                (Inl e, bst2) \<Rightarrow> (Inl e, bst2)
              | (Inr remaining_budget, bst2) \<Rightarrow> (Inr (positive remaining_budget), bst2)))"

text \<open>
  What \<^verbatim>\<open>get_current_cost\<close> reports under a key, written out: the cached day and
  month totals while they are current and 0 after a rollover; for the all-time cost
  the stored value, and the sum over the history when the key \<^verbatim>\<open>all_time\<close> is absent
  (\<open>last_upd\<close> is the parsed \<^verbatim>\<open>last_update\<close>).
\<close>

definition reported_cost :: "string \<Rightarrow> date \<Rightarrow> date \<Rightarrow> usage_rec \<Rightarrow> rat" where
  "reported_cost key today last_upd u =
     (if key = ''cost_today'' then (if today = last_upd then day (current_cost u) else 0)
      else if key = ''cost_month'' then
        (if today = last_upd \<or> date_month today = date_month last_upd
         then month (current_cost u) else 0)
      else (case all_time (current_cost u) of Some a \<Rightarrow> a | None \<Rightarrow> history_cost u))"

text \<open>An example configuration: two listed users with the allowances 5.00 and 10.\<close>

definition example_config :: config where
  "example_config =
     \<lparr>admin_user_ids = ''-'', allowed_user_ids = ''42,43'', user_budgets = ''5.00,10'',
      budget_period = ''monthly'', guest_budget = 100\<rparr>"

definition example_update :: update where
  "example_update = \<lparr>from_user_id = 42, from_user_name = ''@user_name''\<rparr>"

definition tracker_with_month :: "rat \<Rightarrow> UsageTracker" where
  "tracker_with_month c =
     example_tracker\<lparr>usage := example_usage\<lparr>current_cost :=
        (current_cost example_usage)\<lparr>month := c\<rparr>\<rparr>\<rparr>"

definition bot_with_month :: "rat \<Rightarrow> bstate" where
  "bot_with_month c = (empty_disk, [UserId 42 \<mapsto> tracker_with_month c])"

text \<open>
  A ledger written before the key \<^verbatim>\<open>all_time\<close> existed: cached day and month totals of
  1.0, no \<^verbatim>\<open>all_time\<close>, and one history entry of chat tokens. The same configuration
  with the budget period \<^verbatim>\<open>all-time\<close>.
\<close>

definition legacy_usage :: "int \<Rightarrow> usage_rec" where
  "legacy_usage tokens =
     \<lparr>user_name = ''@user_name'',
      current_cost = \<lparr>day = 1, month = 1, all_time = None, last_update = ''2023-03-14''\<rparr>,
      usage_history = \<lparr>chat_tokens = [(''2023-03-13'', tokens)], transcription_seconds = [],
                        number_images = []\<rparr>\<rparr>"

definition legacy_bot :: "int \<Rightarrow> bstate" where
  "legacy_bot tokens =
     (empty_disk, [UserId 42 \<mapsto> example_tracker\<lparr>usage := legacy_usage tokens\<rparr>])"

definition all_time_config :: config where
  "all_time_config = example_config\<lparr>budget_period := ''all-time''\<rparr>"

section \<open>Properties\<close>

subsection \<open>Dates print and parse back\<close>

lemma digits4:
  assumes "n < 10000"
  shows "10 * (10 * (10 * (n div 1000 mod 10) + n div 100 mod 10) + n div 10 mod 10)
           + n mod 10 = (n::nat)"
proof -
  define q1 where "q1 = n div 10"
  define q2 where "q2 = q1 div 10"
  define q3 where "q3 = q2 div 10"
  have e100: "n div 100 = q2"
    unfolding q2_def q1_def by (simp add: div_mult2_eq[symmetric])
  have e1000: "n div 1000 = q3"
    unfolding q3_def q2_def q1_def by (simp add: div_mult2_eq[symmetric])
  have "q3 < 10"
    using assms e1000 by (simp add: less_mult_imp_div_less flip: e1000)
  then have m3: "q3 mod 10 = q3" by simp
  have s1: "10 * q1 + n mod 10 = n" unfolding q1_def by simp
  have s2: "10 * q2 + q1 mod 10 = q1" unfolding q2_def by simp
  have s3: "10 * q3 + q2 mod 10 = q2" unfolding q3_def by simp
  show ?thesis
    unfolding e100 e1000 m3 q1_def[symmetric] using s1 s2 s3 by simp
qed

lemma digits2:
  assumes "n < 100"
  shows "10 * (n div 10 mod 10) + n mod 10 = (n::nat)"
proof -
  have "n div 10 < 10" using assms by simp
  then show ?thesis by simp
qed

lemma digit_val_digit_char: "n < 10 \<Longrightarrow> digit_val (digit_char n) = Some n"
  by (simp add: digit_val_def digit_char_def Let_def)

lemma digits_val_zfill2: "n < 100 \<Longrightarrow> digits_val 0 (zfill2 n) = Some n"
  by (simp add: zfill2_def digit_val_digit_char digits2)

lemma digits_val_zfill4:
  assumes "n < 10000"
  shows "digits_val 0 (zfill4 n) = Some n"
proof -
  have "digits_val 0 (zfill4 n) =
        Some (10 * (10 * (10 * (n div 1000 mod 10) + n div 100 mod 10) + n div 10 mod 10)
              + n mod 10)"
    unfolding zfill4_def by (simp add: digit_val_digit_char del: mod_mod_trivial)
  then show ?thesis unfolding digits4[OF assms] .
qed

lemma str_date_explicit:
  "str_date (Date y m dd) =
     [digit_char (y div 1000 mod 10), digit_char (y div 100 mod 10),
      digit_char (y div 10 mod 10), digit_char (y mod 10), CHR ''-'',
      digit_char (m div 10 mod 10), digit_char (m mod 10), CHR ''-'',
      digit_char (dd div 10 mod 10), digit_char (dd mod 10)]"
  by (simp add: str_date_def zfill4_def zfill2_def)

lemma fromisoformat_str_date:
  assumes "valid_date d"
  shows "fromisoformat (str_date d) = Inr d"
proof -
  obtain y m dd where d: "d = Date y m dd" by (cases d)
  from assms d have b: "y < 10000" "m < 100" "dd < 100"
    by (auto simp: valid_date_def days_in_month_def split: if_splits)
  let ?s = "str_date (Date y m dd)"
  have l: "length ?s = 10" by (simp add: str_date_explicit)
  have p4: "?s ! 4 = CHR ''-''" by (simp add: str_date_explicit)
  have p7: "?s ! 7 = CHR ''-''" by (simp add: str_date_explicit)
  have t4: "digits_val 0 (take 4 ?s) = Some y"
    using digits_val_zfill4[OF b(1)] by (simp add: str_date_explicit zfill4_def)
  have t2: "digits_val 0 (take 2 (drop 5 ?s)) = Some m"
    using digits_val_zfill2[OF b(2)] by (simp add: str_date_explicit zfill2_def)
  have d8: "digits_val 0 (drop 8 ?s) = Some dd"
    using digits_val_zfill2[OF b(3)] by (simp add: str_date_explicit zfill2_def)
  show ?thesis
    unfolding d fromisoformat_def l p4 p7 t4 t2 d8 using assms d by simp
qed

subsection \<open>The history sum at default prices always returns\<close>

lemma default_price_list:
  "float_all (str_split ''0.016,0.018,0.02'' CHR '','')
     = Inr [Finite (double (16 / 1000)), Finite (double (18 / 1000)), Finite (double (2 / 100))]"
  by code_simp

lemma initialize_all_time_cost_returns: "\<exists>c. initialize_all_time_cost u = Inr c"
  by (simp add: initialize_all_time_cost_def default_price_list Let_def)

lemma example_state_last_update:
  "fromisoformat (last_update (current_cost (usage (snd example_state))))
     = Inr (Date 2023 3 14)"
  by code_simp

subsection \<open>Image requests: the size and the price list\<close>

lemma index_from_notin: "x \<notin> set xs \<Longrightarrow> index_from i xs x = Inl ValueError"
  by (induction xs arbitrary: i) auto

lemma index_notin: "x \<notin> set xs \<Longrightarrow> index xs x = Inl ValueError"
  by (simp add: index_def index_from_notin)

text \<open>
  Claim C4. For every state of the ledger and of the disk, and every image size that
  is not one of \<^verbatim>\<open>256x256\<close>, \<^verbatim>\<open>512x512\<close>, \<^verbatim>\<open>1024x1024\<close>, \<^verbatim>\<open>add_image_request\<close>
  raises \<^verbatim>\<open>ValueError\<close> (the repository's invalid-input error) and leaves the
  state exactly as it was: no aggregate, no history entry and no file has changed.
\<close>

theorem add_image_request_unknown_size:
  "image_size \<notin> set sizes \<Longrightarrow>
   add_image_request today image_size image_prices st = (Some ValueError, st)"
  by (simp add: add_image_request_def index_notin Let_def)

theorem add_image_request_unknown_size_witness:
  "''300x300'' \<notin> set sizes \<and>
   add_image_request (Date 2023 3 14) ''300x300'' (PriceList (cfg_image_prices default_prices))
     example_state = (Some ValueError, example_state)"
proof -
  have h: "''300x300'' \<notin> set sizes" by (simp add: sizes_def)
  show ?thesis using h add_image_request_unknown_size [OF h] by simp
qed

lemma index_512: "index sizes ''512x512'' = Inr 1"
  by code_simp

lemma subscript_default_1: "subscript default_image_prices 1 = Inr (CostStr ''.'')"
  by code_simp

lemma add_image_request_str_price:
  assumes "index sizes image_size = Inr i" and "subscript prices i = Inr (CostStr c)"
    and "fromisoformat (last_update (current_cost (usage (snd st)))) = Inr lu"
  shows "add_image_request today image_size prices st = (Some TypeError, st)"
proof -
  obtain hc where hc: "initialize_all_time_cost (usage (snd st)) = Inr hc"
    using initialize_all_time_cost_returns by blast
  show ?thesis
    unfolding add_image_request_def by (simp add: assms hc Let_def)
qed

text \<open>
  Claim C3. With the price list given as the string \<^verbatim>\<open>"0.016,0.018,0.02"\<close>, which
  is the default of the parameter, \<^verbatim>\<open>add_image_request("512x512")\<close> does not add
  0.018: the subscript \<^verbatim>\<open>image_prices[1]\<close> is the character \<^verbatim>\<open>"."\<close>, the addition
  to the all-time cost raises \<^verbatim>\<open>TypeError\<close>, and the ledger is left unchanged.
\<close>

theorem add_image_request_default_prices_raises:
  "add_image_request (Date 2023 3 14) ''512x512'' default_image_prices example_state
     = (Some TypeError, example_state)"
  by (rule add_image_request_str_price
        [OF index_512 subscript_default_1 example_state_last_update])

text \<open>
  With the list of floats \<^verbatim>\<open>[0.016, 0.018, 0.02]\<close>, as the bot passes it, the same
  request on a fresh ledger returns: the float 0.018 is added to the day, the month and
  the all-time cost, and today's vector is created as \<^verbatim>\<open>[0, 0, 0]\<close> and incremented at
  index 1.
\<close>

lemma add_image_request_list_prices:
  "fst (add_image_request (Date 2023 3 14) ''512x512''
          (PriceList (cfg_image_prices default_prices)) (fresh_state (Date 2023 3 14))) = None
   \<and> ledger (snd (add_image_request (Date 2023 3 14) ''512x512''
          (PriceList (cfg_image_prices default_prices)) (fresh_state (Date 2023 3 14))))
       = \<lparr>day = double (18 / 1000), month = double (18 / 1000),
          all_time = Some (double (18 / 1000)), last_update = ''2023-03-14''\<rparr>
   \<and> number_images (history (snd (add_image_request (Date 2023 3 14) ''512x512''
          (PriceList (cfg_image_prices default_prices)) (fresh_state (Date 2023 3 14)))))
       = [(''2023-03-14'', [0, 1, 0])]"
  by code_simp

subsection \<open>Reading the current cost\<close>

text \<open>
  Claim C10. \<^verbatim>\<open>get_current_cost\<close> leaves the tracker and the disk as they were:
  whatever it reports (a day or month of 0 after a rollover, the history sum for an
  absent \<^verbatim>\<open>all_time\<close>) and also when it raises, no field and no file changes.
\<close>

theorem get_current_cost_frame: "snd (get_current_cost today st) = st"
  by (simp add: get_current_cost_def Let_def split: sum.splits)

subsection \<open>Loading a ledger\<close>

text \<open>
  Claim C5, as the code has it. When there is no file for the identity, the
  constructor builds a fresh ledger (day, month and all-time cost 0, last update
  today, empty history) and raises nothing. When the file is there and is not a JSON
  document, the constructor raises the decoder's \<^verbatim>\<open>JSONDecodeError\<close>.
\<close>

theorem UsageTracker_init_missing_or_malformed:
  "UsageTracker_init today (fs(dir @ ''/'' @ str_ident uid @ ''.json'' := None)) uid uname dir
     = Inr \<lparr>user_id = uid, logs_dir = dir,
            user_file = dir @ ''/'' @ str_ident uid @ ''.json'',
            usage = \<lparr>user_name = uname,
                      current_cost = \<lparr>day = 0, month = 0, all_time = Some 0,
                                       last_update = str_date today\<rparr>,
                      usage_history = \<lparr>chat_tokens = [], transcription_seconds = [],
                                        number_images = []\<rparr>\<rparr>\<rparr>
   \<and> UsageTracker_init today (fs(dir @ ''/'' @ str_ident uid @ ''.json'' \<mapsto> Malformed))
         uid uname dir
     = Inl JSONDecodeError"
  by (simp add: UsageTracker_init_def Let_def)

text \<open>
  The claim as the specification states it fails: a file that is not valid JSON is
  not treated as absent.
\<close>

theorem UsageTracker_init_malformed_raises:
  "UsageTracker_init (Date 2023 3 14) (empty_disk(''usage_logs/42.json'' \<mapsto> Malformed))
     (UserId 42) ''@user_name'' ''usage_logs'' = Inl JSONDecodeError"
  by code_simp

subsection \<open>Each method performs the shared aggregate step\<close>

lemma initialize_all_time_cost_eq: "initialize_all_time_cost u = Inr (history_cost u)"
  using initialize_all_time_cost_returns [of u] by (auto simp: history_cost_def)

lemma add_chat_tokens_step:
  assumes "fromisoformat (last_update (ledger st)) = Inr lu"
  shows "add_chat_tokens today tokens price st =
           (None, commit st
              (rollover today lu (py_round (fdiv (fmul (int_to_float tokens) price) 1000) 6)
                 (history_cost (usage (snd st))) (ledger st))
              ((history st)\<lparr>chat_tokens :=
                  (case map_of (chat_tokens (history st)) (str_date today) of
                     Some t \<Rightarrow> dict_set (str_date today) (t + tokens) (chat_tokens (history st))
                   | None \<Rightarrow> dict_set (str_date today) tokens (chat_tokens (history st)))\<rparr>))"
  unfolding add_chat_tokens_def commit_def rollover_def
  by (simp add: assms initialize_all_time_cost_eq Let_def split: option.splits)

lemma add_transcription_seconds_step:
  assumes "fromisoformat (last_update (ledger st)) = Inr lu"
  shows "add_transcription_seconds today seconds price st =
           (None, commit st
              (rollover today lu (py_round (fdiv (fmul seconds price) 60) 2)
                 (history_cost (usage (snd st))) (ledger st))
              ((history st)\<lparr>transcription_seconds :=
                  (case map_of (transcription_seconds (history st)) (str_date today) of
                     Some t \<Rightarrow> dict_set (str_date today) (fadd t seconds)
                                (transcription_seconds (history st))
                   | None \<Rightarrow> dict_set (str_date today) seconds
                                (transcription_seconds (history st)))\<rparr>))"
  unfolding add_transcription_seconds_def commit_def rollover_def
  by (simp add: assms initialize_all_time_cost_eq Let_def split: option.splits)

lemma add_image_request_step:
  assumes "fromisoformat (last_update (ledger st)) = Inr lu"
    and "index sizes image_size = Inr i" and "i < length ps"
    and "i < length (image_vector today (history st))"
  shows "add_image_request today image_size (PriceList ps) st =
           (None, commit st
              (rollover today lu (ps ! i) (history_cost (usage (snd st))) (ledger st))
              ((history st)\<lparr>number_images :=
                  dict_set (str_date today)
                    ((image_vector today (history st))
                       [i := image_vector today (history st) ! i + 1])
                    (number_images (history st))\<rparr>))"
proof (cases "map_of (number_images (history st)) (str_date today)")
  case None
  then show ?thesis
    unfolding add_image_request_def commit_def rollover_def image_vector_def subscript_def
    by (simp add: assms(1,2,3) initialize_all_time_cost_eq Let_def)
next
  case (Some v)
  with assms(4) have "i < length v" by (simp add: image_vector_def)
  with Some show ?thesis
    unfolding add_image_request_def commit_def rollover_def image_vector_def subscript_def
    by (simp add: assms(1,2,3) initialize_all_time_cost_eq Let_def)
qed

lemma ledger_commit: "ledger (commit st cc h) = cc"
  by (simp add: commit_def Let_def)

lemma history_commit: "history (commit st cc h) = h"
  by (simp add: commit_def Let_def)

lemma user_file_commit: "user_file (snd (commit st cc h)) = user_file (snd st)"
  by (simp add: commit_def Let_def)

lemma disk_commit:
  "fst (commit st cc h) (user_file (snd st)) = Some (Document (usage (snd (commit st cc h))))"
  by (simp add: commit_def Let_def)

lemma day_rollover:
  "day (rollover today lu c hc cc) = (if today = lu then fadd (day cc) c else c)"
  by (simp add: rollover_def Let_def)

lemma month_rollover:
  "month (rollover today lu c hc cc) =
     (if today = lu \<or> date_month today = date_month lu then fadd (month cc) c else c)"
  by (simp add: rollover_def Let_def)

lemma all_time_rollover:
  "all_time (rollover today lu c hc cc) =
     Some (fadd (case all_time cc of None \<Rightarrow> hc | Some a \<Rightarrow> a) c)"
  by (simp add: rollover_def Let_def)

lemma last_update_rollover:
  "last_update (rollover today lu c hc cc) =
     (if today = lu then last_update cc else str_date today)"
  by (simp add: rollover_def Let_def)


lemmas rollover_fields = day_rollover month_rollover all_time_rollover last_update_rollover

subsection \<open>Rollover to the next day of the same month\<close>

text \<open>
  Claim C6. Let the ledger's last update be the date \<open>y-m-d\<close> and let an event arrive
  on the next calendar day \<open>y-m-(d+1)\<close> of the same month. Then each of the three
  methods returns normally, the month total is the prior month total plus the cost of
  the event (the float sum \<^verbatim>\<open>month += cost\<close>), the day total is exactly the cost of the
  event, and the last update is today. (For an image request the size is one of the
  three known sizes, at index \<open>i\<close>, and the price list and today's vector have an entry
  at \<open>i\<close>.)
\<close>

theorem rollover_next_day_same_month:
  assumes lu: "fromisoformat (last_update (ledger st)) = Inr (Date y m d)"
    and size: "index sizes image_size = Inr i"
    and prices: "i < length ps"
    and vector: "i < length (image_vector (Date y m (d + 1)) (history st))"
  shows
    "(fst (add_chat_tokens (Date y m (d + 1)) tokens price st) = None
      \<and> month (ledger (snd (add_chat_tokens (Date y m (d + 1)) tokens price st)))
          = fadd (month (ledger st)) (py_round (fdiv (fmul (int_to_float tokens) price) 1000) 6)
      \<and> day (ledger (snd (add_chat_tokens (Date y m (d + 1)) tokens price st)))
          = py_round (fdiv (fmul (int_to_float tokens) price) 1000) 6
      \<and> last_update (ledger (snd (add_chat_tokens (Date y m (d + 1)) tokens price st)))
          = str_date (Date y m (d + 1)))
   \<and> (fst (add_transcription_seconds (Date y m (d + 1)) seconds minute_price st) = None
      \<and> month (ledger (snd (add_transcription_seconds (Date y m (d + 1)) seconds
                               minute_price st)))
          = fadd (month (ledger st)) (py_round (fdiv (fmul seconds minute_price) 60) 2)
      \<and> day (ledger (snd (add_transcription_seconds (Date y m (d + 1)) seconds
                             minute_price st)))
          = py_round (fdiv (fmul seconds minute_price) 60) 2
      \<and> last_update (ledger (snd (add_transcription_seconds (Date y m (d + 1)) seconds
                                     minute_price st)))
          = str_date (Date y m (d + 1)))
   \<and> (fst (add_image_request (Date y m (d + 1)) image_size (PriceList ps) st) = None
      \<and> month (ledger (snd (add_image_request (Date y m (d + 1)) image_size
                               (PriceList ps) st)))
          = fadd (month (ledger st)) (ps ! i)
      \<and> day (ledger (snd (add_image_request (Date y m (d + 1)) image_size
                             (PriceList ps) st)))
          = ps ! i
      \<and> last_update (ledger (snd (add_image_request (Date y m (d + 1)) image_size
                                     (PriceList ps) st)))
          = str_date (Date y m (d + 1)))"
  unfolding add_chat_tokens_step [OF lu] add_transcription_seconds_step [OF lu]
    add_image_request_step [OF lu size prices vector]
  by (simp add: ledger_commit rollover_fields)

lemma example_prices_length: "1 < length (cfg_image_prices default_prices)"
  by (simp add: default_prices_def)

lemma example_vector_next_day:
  "1 < length (image_vector (Date 2023 3 (14 + 1)) (history example_state))"
  by code_simp

lemma example_month: "month (ledger example_state) = double (323 / 100)"
  by (simp add: example_state_def example_tracker_def example_usage_def)

lemma example_token_cost:
  "py_round (fdiv (fmul (int_to_float 1000) (double (2 / 1000))) 1000) 6 = double (2 / 1000)"
  by code_simp

lemma example_transcription_cost:
  "py_round (fdiv (fmul 90 (double (6 / 1000))) 60) 2 = double (1 / 100)"
  by code_simp

theorem rollover_next_day_same_month_witness:
  "fromisoformat (last_update (ledger example_state)) = Inr (Date 2023 3 14)
   \<and> index sizes ''512x512'' = Inr 1
   \<and> 1 < length (cfg_image_prices default_prices)
   \<and> 1 < length (image_vector (Date 2023 3 (14 + 1)) (history example_state))
   \<and> fst (add_chat_tokens (Date 2023 3 (14 + 1)) 1000 (double (2 / 1000)) example_state) = None
   \<and> month (ledger (snd (add_chat_tokens (Date 2023 3 (14 + 1)) 1000 (double (2 / 1000))
                            example_state)))
       = fadd (double (323 / 100)) (double (2 / 1000))
   \<and> day (ledger (snd (add_transcription_seconds (Date 2023 3 (14 + 1)) 90 (double (6 / 1000))
                          example_state)))
       = double (1 / 100)
   \<and> last_update (ledger (snd (add_image_request (Date 2023 3 (14 + 1)) ''512x512''
                                  (PriceList (cfg_image_prices default_prices))
                                  example_state)))
       = str_date (Date 2023 3 (14 + 1))"
  using rollover_next_day_same_month
          [OF example_state_last_update index_512 example_prices_length
              example_vector_next_day, of 1000 "double (2 / 1000)" 90 "double (6 / 1000)"]
    example_state_last_update index_512 example_prices_length example_vector_next_day
  unfolding example_month example_token_cost example_transcription_cost
  by blast

subsection \<open>The same month number in another year\<close>

lemma example_sum_not_reset:
  "fadd (double (323 / 100)) (double (2 / 1000)) \<noteq> double (2 / 1000)"
  by code_simp

text \<open>
  Claim C2. The code compares the month numbers only (\<^verbatim>\<open>today.month ==
  last_update.month\<close>), not the pair of year and month. On the ledger of the class
  docstring (last update 2023-03-14, month total 3.23), an event of cost 0.002 on
  2024-03-20 leaves the month total at the float sum of 3.23 and 0.002 where the claim
  says it resets to 0.002, and \<^verbatim>\<open>get_current_cost\<close> on 2024-03-20 still reports the
  month total 3.23 of March 2023.
\<close>

theorem month_not_reset_in_same_month_of_next_year:
  "month (ledger (snd (add_chat_tokens (Date 2024 3 20) 1000 (double (2 / 1000))
                         example_state)))
     = fadd (double (323 / 100)) (double (2 / 1000))
   \<and> month (ledger (snd (add_chat_tokens (Date 2024 3 20) 1000 (double (2 / 1000))
                           example_state)))
     \<noteq> double (2 / 1000)
   \<and> fst (get_current_cost (Date 2024 3 20) example_state)
     = Inr [(''cost_today'', 0), (''cost_month'', double (323 / 100)),
            (''cost_all_time'', double (323 / 100))]"
proof -
  have m: "month (ledger (snd (add_chat_tokens (Date 2024 3 20) 1000 (double (2 / 1000))
                                 example_state)))
             = fadd (double (323 / 100)) (double (2 / 1000))"
    unfolding add_chat_tokens_step [OF example_state_last_update] snd_conv ledger_commit
      month_rollover example_month example_token_cost
    by simp
  have r: "fst (get_current_cost (Date 2024 3 20) example_state)
             = Inr [(''cost_today'', 0), (''cost_month'', double (323 / 100)),
                    (''cost_all_time'', double (323 / 100))]"
    using example_state_last_update
    by (simp add: get_current_cost_def Let_def initialize_all_time_cost_eq
          example_state_def example_tracker_def example_usage_def)
  show ?thesis using m r example_sum_not_reset by simp
qed

text \<open>
  The sibling read path \<^verbatim>\<open>get_current_token_usage\<close> does compare year and month
  (the prefix \<^verbatim>\<open>YYYY-MM\<close> of the date): in March 2024 it reports no tokens for the
  month, in March 2023 the 2052 tokens of the history.
\<close>

lemma token_usage_compares_year_and_month:
  "get_current_token_usage (Date 2024 3 20) example_tracker = (0, 0)
   \<and> get_current_token_usage (Date 2023 3 20) example_tracker = (0, 2052)"
  by code_simp


subsection \<open>Writing the ledger and loading it again\<close>

lemma add_chat_tokens_tracker:
  "snd (snd (add_chat_tokens today tokens price st))
     = (snd st)\<lparr>usage := usage (snd (snd (add_chat_tokens today tokens price st)))\<rparr>"
  by (simp add: add_chat_tokens_def Let_def split: sum.splits option.splits)

lemma add_transcription_seconds_tracker:
  "snd (snd (add_transcription_seconds today seconds price st))
     = (snd st)\<lparr>usage :=
          usage (snd (snd (add_transcription_seconds today seconds price st)))\<rparr>"
  by (simp add: add_transcription_seconds_def Let_def split: sum.splits option.splits)

lemma add_image_request_tracker:
  "snd (snd (add_image_request today image_size prices st))
     = (snd st)\<lparr>usage :=
          usage (snd (snd (add_image_request today image_size prices st)))\<rparr>"
  by (simp add: add_image_request_def Let_def
        split: sum.splits option.splits price_val.splits)

lemma well_placed_usage: "well_placed (t\<lparr>usage := u\<rparr>) = well_placed t"
  by (simp add: well_placed_def)

lemma get_current_cost_state: "snd (get_current_cost today st) = st"
  by (simp add: get_current_cost_def Let_def split: sum.splits)

lemma reachable_well_placed: "reachable st \<Longrightarrow> well_placed (snd st)"
proof (induction rule: reachable.induct)
  case (constructed today fs uid uname dir self)
  then show ?case
    by (auto simp: UsageTracker_init_def well_placed_def Let_def
          split: option.splits file_content.splits)
next
  case (chat st today tokens price)
  then show ?case
    by (subst add_chat_tokens_tracker) (simp add: well_placed_usage)
next
  case (image st today image_size prices)
  then show ?case
    by (subst add_image_request_tracker) (simp add: well_placed_usage)
next
  case (transcription st today seconds price)
  then show ?case
    by (subst add_transcription_seconds_tracker) (simp add: well_placed_usage)
next
  case (cost st today)
  then show ?case by (simp add: get_current_cost_state)
qed

lemma reload_well_placed:
  assumes "well_placed (snd st)"
  shows "UsageTracker_init today (dump st) (user_id (snd st)) uname (logs_dir (snd st))
           = Inr (snd st)"
  using assms by (simp add: UsageTracker_init_def dump_def well_placed_def Let_def)

lemma get_current_cost_disk:
  "fst (get_current_cost today (fs, t)) = fst (get_current_cost today (fs', t))"
  by (simp add: get_current_cost_def Let_def split: sum.splits)

text \<open>What a method that returned has written is the dump of the state it left.\<close>

lemma dump_commit: "dump (commit st cc h) = fst (commit st cc h)"
  by (simp add: dump_def commit_def Let_def)

text \<open>
  Claim C9. For every state the operations reach: write the ledger to its file and
  construct a tracker for the same identity and directory from the disk (on any
  day, under any display name). The constructor returns a tracker whose
  \<^verbatim>\<open>get_current_cost()\<close> is the one of the original, on whatever day it is asked,
  and whose history is the original's.
\<close>

theorem reload_identical:
  assumes "reachable st"
  shows "\<exists>t. UsageTracker_init today (dump st) (user_id (snd st)) uname (logs_dir (snd st))
               = Inr t
           \<and> fst (get_current_cost now (dump st, t)) = fst (get_current_cost now st)
           \<and> usage_history (usage t) = history st"
proof -
  have "UsageTracker_init today (dump st) (user_id (snd st)) uname (logs_dir (snd st))
          = Inr (snd st)"
    using reload_well_placed [OF reachable_well_placed [OF assms]] .
  moreover have "fst (get_current_cost now (dump st, snd st)) = fst (get_current_cost now st)"
    using get_current_cost_disk [of now "dump st" "snd st" "fst st"] by simp
  ultimately show ?thesis by blast
qed

lemma example_tracker_constructed:
  "UsageTracker_init (Date 2023 3 14) example_disk (UserId 42) ''@user_name'' ''usage_logs''
     = Inr example_tracker"
  by code_simp

lemma example_state_reachable:
  "reachable (snd (add_chat_tokens (Date 2023 3 15) 1000 (double (2 / 1000)) example_state))"
  unfolding example_state_def
  by (rule reachable.chat, rule reachable.constructed, rule example_tracker_constructed)

theorem reload_identical_witness:
  "reachable (snd (add_chat_tokens (Date 2023 3 15) 1000 (double (2 / 1000)) example_state))
   \<and> (\<exists>t. UsageTracker_init (Date 2023 4 1)
             (dump (snd (add_chat_tokens (Date 2023 3 15) 1000 (double (2 / 1000)) example_state)))
             (user_id (snd (snd (add_chat_tokens (Date 2023 3 15) 1000 (double (2 / 1000))
                                   example_state))))
             ''@renamed''
             (logs_dir (snd (snd (add_chat_tokens (Date 2023 3 15) 1000 (double (2 / 1000))
                                    example_state)))) = Inr t
         \<and> fst (get_current_cost (Date 2023 4 1)
                  (dump (snd (add_chat_tokens (Date 2023 3 15) 1000 (double (2 / 1000)) example_state)),
                   t))
           = fst (get_current_cost (Date 2023 4 1)
                    (snd (add_chat_tokens (Date 2023 3 15) 1000 (double (2 / 1000)) example_state)))
         \<and> usage_history (usage t)
           = history (snd (add_chat_tokens (Date 2023 3 15) 1000 (double (2 / 1000)) example_state)))"
  using reload_identical [OF example_state_reachable, of "Date 2023 4 1" "''@renamed''"
          "Date 2023 4 1"]
    example_state_reachable
  by blast


subsection \<open>The budget gate\<close>

lemma index_from_mem: "index_from i xs x = Inr k \<Longrightarrow> x \<in> set xs"
  by (induction xs arbitrary: i) (auto split: if_splits)

lemma index_mem: "index xs x = Inr k \<Longrightarrow> x \<in> set xs"
  by (simp add: index_def index_from_mem)

lemma ensure_tracker_present:
  assumes "ensure_tracker today key uname bst = Inr bst1"
  shows "\<exists>t. snd bst1 key = Some t"
  using assms by (auto simp: ensure_tracker_def split: option.splits sum.splits)

lemma ensure_tracker_again:
  assumes "snd bst key = Some t"
  shows "ensure_tracker today key uname bst = Inr bst"
  using assms by (simp add: ensure_tracker_def)

lemma get_user_budget_listed:
  assumes "\<not> is_admin cfg upd" and "user_budgets cfg \<noteq> ''*''" and "allowed_user_ids cfg \<noteq> ''*''"
    and "index (str_split (allowed_user_ids cfg) CHR '','') (str_int (from_user_id upd)) = Inr k"
    and "k < length (str_split (user_budgets cfg) CHR '','')"
    and "py_float (str_split (user_budgets cfg) CHR '','' ! k) = Inr (Finite A)"
  shows "get_user_budget cfg upd = Inr (Some (Finite A))"
  using assms index_mem [OF assms(4)]
  by (simp add: get_user_budget_def Let_def)

lemma get_current_cost_report:
  assumes "fromisoformat (last_update (current_cost (usage t))) = Inr lu"
  shows "fst (get_current_cost today (fs, t))
           = Inr [(''cost_today'', reported_cost ''cost_today'' today lu (usage t)),
                  (''cost_month'', reported_cost ''cost_month'' today lu (usage t)),
                  (''cost_all_time'', reported_cost ''cost_all_time'' today lu (usage t))]"
  using assms
  by (simp add: get_current_cost_def Let_def initialize_all_time_cost_eq reported_cost_def
        split: option.splits)

lemma period_key:
  assumes "map_of budget_cost_map period = Some key"
  shows "key = ''cost_month'' \<or> key = ''cost_today'' \<or> key = ''cost_all_time''"
  using assms by (auto simp: budget_cost_map_def split: if_splits)

lemma period_cost_reported:
  assumes "snd bst key_id = Some t"
    and "fromisoformat (last_update (current_cost (usage t))) = Inr lu"
    and "map_of budget_cost_map (budget_period cfg) = Some key"
  shows "period_cost cfg today key_id bst = Inr (reported_cost key today lu (usage t))"
  using period_key [OF assms(3)]
  by (auto simp: period_cost_def assms get_current_cost_report [OF assms(2)])

text \<open>
  Claim C8, as the code has it. Let the sender be no admin, let neither list be the
  wildcard, let the sender stand at position \<open>k\<close> of the allow-list and let entry \<open>k\<close>
  of the budget list be the finite float \<open>A\<close>. Let \<open>t\<close> be the sender's tracker (loaded
  if it was not). Then \<^verbatim>\<open>get_remaining_budget\<close> returns the float \<open>A - c\<close> and
  \<^verbatim>\<open>is_within_budget\<close> returns whether \<open>0 < A - c\<close>, where \<open>c\<close> is what
  \<^verbatim>\<open>get_current_cost\<close> reports for the configured budget period (\<open>reported_cost\<close>): the
  cached day or month total, or 0 after a rollover, and for the all-time period the
  stored all-time cost. The result depends on the history in one case: when the key
  \<^verbatim>\<open>all_time\<close> is absent, the all-time cost reported is the sum of the full history.
  (\<^verbatim>\<open>get_current_cost\<close> computes that sum on every call, as the default argument of
  \<^verbatim>\<open>dict.get\<close>, and drops it when the key is present.)
\<close>

theorem remaining_budget_of_listed_user:
  assumes "\<not> is_admin cfg upd" and "user_budgets cfg \<noteq> ''*''" and "allowed_user_ids cfg \<noteq> ''*''"
    and "index (str_split (allowed_user_ids cfg) CHR '','') (str_int (from_user_id upd)) = Inr k"
    and "k < length (str_split (user_budgets cfg) CHR '','')"
    and "py_float (str_split (user_budgets cfg) CHR '','' ! k) = Inr (Finite A)"
    and "ensure_tracker today (UserId (from_user_id upd)) (from_user_name upd) bst = Inr bst1"
    and "snd bst1 (UserId (from_user_id upd)) = Some t"
    and "fromisoformat (last_update (current_cost (usage t))) = Inr lu"
    and "map_of budget_cost_map (budget_period cfg) = Some key"
  shows "get_remaining_budget cfg today upd bst
           = (Inr (Finite (fsub A (reported_cost key today lu (usage t)))), bst1)
       \<and> is_within_budget cfg today upd bst
           = (Inr (0 < fsub A (reported_cost key today lu (usage t))), bst1)"
proof -
  have b: "get_user_budget cfg upd = Inr (Some (Finite A))"
    using get_user_budget_listed [OF assms(1-6)] .
  have pc: "period_cost cfg today (UserId (from_user_id upd)) bst1
              = Inr (reported_cost key today lu (usage t))"
    using period_cost_reported [OF assms(8,9,10)] .
  have r: "get_remaining_budget cfg today upd bst
             = (Inr (Finite (fsub A (reported_cost key today lu (usage t)))), bst1)"
    by (simp add: get_remaining_budget_def Let_def assms(7) b pc minus_cost_def)
  have again: "ensure_tracker today (UserId (from_user_id upd)) (from_user_name upd) bst1
                 = Inr bst1"
    using ensure_tracker_again [OF assms(8)] .
  have r1: "get_remaining_budget cfg today upd bst1
              = (Inr (Finite (fsub A (reported_cost key today lu (usage t)))), bst1)"
    by (simp add: get_remaining_budget_def Let_def again b pc minus_cost_def)
  have w: "is_within_budget cfg today upd bst
             = (Inr (0 < fsub A (reported_cost key today lu (usage t))), bst1)"
    by (simp add: is_within_budget_def Let_def assms(7) r1 positive_def)
  show ?thesis using r w by blast
qed

lemma example_not_admin: "\<not> is_admin example_config example_update"
  by code_simp

lemma example_budgets_not_star: "user_budgets example_config \<noteq> ''*''"
  by code_simp

lemma example_allowed_not_star: "allowed_user_ids example_config \<noteq> ''*''"
  by code_simp

lemma example_user_index:
  "index (str_split (allowed_user_ids example_config) CHR '','')
     (str_int (from_user_id example_update)) = Inr 0"
  by code_simp

lemma example_budgets_length: "0 < length (str_split (user_budgets example_config) CHR '','')"
  by code_simp

lemma example_allowance:
  "py_float (str_split (user_budgets example_config) CHR '','' ! 0) = Inr (Finite 5)"
  by code_simp

lemma example_bot_tracker:
  "snd (bot_with_month c) (UserId (from_user_id example_update)) = Some (tracker_with_month c)"
  by (simp add: bot_with_month_def example_update_def)

lemma example_bot_ensure:
  "ensure_tracker (Date 2023 3 14) (UserId (from_user_id example_update))
     (from_user_name example_update) (bot_with_month c) = Inr (bot_with_month c)"
  by (rule ensure_tracker_again [OF example_bot_tracker])

lemma example_date: "fromisoformat ''2023-03-14'' = Inr (Date 2023 3 14)"
  by code_simp

lemma example_bot_last_update:
  "fromisoformat (last_update (current_cost (usage (tracker_with_month c))))
     = Inr (Date 2023 3 14)"
  by (simp add: tracker_with_month_def example_tracker_def example_usage_def example_date)

lemma example_bot_reported:
  "reported_cost ''cost_month'' (Date 2023 3 14) (Date 2023 3 14) (usage (tracker_with_month c))
     = c"
  by (simp add: reported_cost_def tracker_with_month_def example_tracker_def example_usage_def)

lemma example_period:
  "map_of budget_cost_map (budget_period example_config) = Some ''cost_month''"
  by code_simp

lemma example_remainder_zero: "fsub 5 5 = 0"
  by (simp add: fsub_def double_def)

lemma example_remainder_positive: "0 < fsub 5 (double (499 / 100))"
  by code_simp

text \<open>
  With the allowance 5.00: a month cost of 5.00 leaves 0.0 and the gate answers
  \<open>False\<close>; a month cost of 4.99 makes it answer \<open>True\<close>.
\<close>

theorem remaining_budget_of_listed_user_witness:
  "\<not> is_admin example_config example_update
   \<and> user_budgets example_config \<noteq> ''*'' \<and> allowed_user_ids example_config \<noteq> ''*''
   \<and> index (str_split (allowed_user_ids example_config) CHR '','')
        (str_int (from_user_id example_update)) = Inr 0
   \<and> 0 < length (str_split (user_budgets example_config) CHR '','')
   \<and> py_float (str_split (user_budgets example_config) CHR '','' ! 0) = Inr (Finite 5)
   \<and> ensure_tracker (Date 2023 3 14) (UserId (from_user_id example_update))
        (from_user_name example_update) (bot_with_month 5) = Inr (bot_with_month 5)
   \<and> snd (bot_with_month 5) (UserId (from_user_id example_update))
        = Some (tracker_with_month 5)
   \<and> fromisoformat (last_update (current_cost (usage (tracker_with_month 5))))
        = Inr (Date 2023 3 14)
   \<and> map_of budget_cost_map (budget_period example_config) = Some ''cost_month''
   \<and> get_remaining_budget example_config (Date 2023 3 14) example_update (bot_with_month 5)
        = (Inr (Finite 0), bot_with_month 5)
   \<and> is_within_budget example_config (Date 2023 3 14) example_update (bot_with_month 5)
        = (Inr False, bot_with_month 5)
   \<and> is_within_budget example_config (Date 2023 3 14) example_update
        (bot_with_month (double (499 / 100)))
        = (Inr True, bot_with_month (double (499 / 100)))"
proof -
  have a: "get_remaining_budget example_config (Date 2023 3 14) example_update
             (bot_with_month 5) = (Inr (Finite 0), bot_with_month 5)
           \<and> is_within_budget example_config (Date 2023 3 14) example_update
               (bot_with_month 5) = (Inr False, bot_with_month 5)"
    using remaining_budget_of_listed_user
            [OF example_not_admin example_budgets_not_star example_allowed_not_star
                example_user_index example_budgets_length example_allowance
                example_bot_ensure example_bot_tracker example_bot_last_update
                example_period, of 5]
    unfolding example_bot_reported example_remainder_zero by simp
  have b: "is_within_budget example_config (Date 2023 3 14) example_update
             (bot_with_month (double (499 / 100)))
             = (Inr True, bot_with_month (double (499 / 100)))"
    using remaining_budget_of_listed_user
            [OF example_not_admin example_budgets_not_star example_allowed_not_star
                example_user_index example_budgets_length example_allowance
                example_bot_ensure example_bot_tracker example_bot_last_update
                example_period, of "double (499 / 100)"]
      example_remainder_positive
    unfolding example_bot_reported by simp
  show ?thesis
    using a b example_not_admin example_budgets_not_star example_allowed_not_star
      example_user_index example_budgets_length example_allowance
      example_bot_ensure [of 5] example_bot_tracker [of 5] example_bot_last_update [of 5]
      example_period
    by blast
qed

text \<open>
  The claim as the specification states it fails where it says that the cost is not
  summed from the history. Two ledgers with the same cached totals (day 1.0, month
  1.0, no \<^verbatim>\<open>all_time\<close> key) and the budget period \<^verbatim>\<open>all-time\<close>: with a history
  of 1000000 chat tokens the remaining budget of the allowance 5.00 is 3.0, with a
  history of 0 tokens it is 5.0.
\<close>

theorem remaining_budget_sums_history:
  "fst (get_remaining_budget all_time_config (Date 2023 3 14) example_update
          (legacy_bot 1000000)) = Inr (Finite 3)
   \<and> fst (get_remaining_budget all_time_config (Date 2023 3 14) example_update (legacy_bot 0))
       = Inr (Finite 5)
   \<and> current_cost (legacy_usage 1000000) = current_cost (legacy_usage 0)"
  by code_simp

subsection \<open>When a method returns\<close>

lemma index_from_bounds: "index_from i xs x = Inr k \<Longrightarrow> i \<le> k \<and> k < i + length xs"
  by (induction xs arbitrary: i) (fastforce split: if_splits)+

lemma index_lt: "index xs x = Inr k \<Longrightarrow> k < length xs"
  using index_from_bounds [of 0 xs x k] by (simp add: index_def)

lemma add_chat_tokens_returns:
  assumes "fst (add_chat_tokens today tokens price st) = None"
  shows "\<exists>lu. fromisoformat (last_update (ledger st)) = Inr lu"
  using assms by (cases "fromisoformat (last_update (ledger st))")
    (simp_all add: add_chat_tokens_def Let_def)

lemma add_transcription_seconds_returns:
  assumes "fst (add_transcription_seconds today seconds price st) = None"
  shows "\<exists>lu. fromisoformat (last_update (ledger st)) = Inr lu"
  using assms by (cases "fromisoformat (last_update (ledger st))")
    (simp_all add: add_transcription_seconds_def Let_def)

lemma add_image_request_returns:
  assumes "fst (add_image_request today image_size (PriceList ps) st) = None"
  shows "\<exists>lu i. fromisoformat (last_update (ledger st)) = Inr lu
           \<and> index sizes image_size = Inr i \<and> i < length ps
           \<and> i < length (image_vector today (history st))"
proof -
  obtain i where i: "index sizes image_size = Inr i"
    using assms by (cases "index sizes image_size") (simp_all add: add_image_request_def Let_def)
  have i3: "i < 3" using index_lt [OF i] by (simp add: sizes_def)
  have ps: "i < length ps"
    using assms i by (cases "i < length ps") (simp_all add: add_image_request_def Let_def subscript_def)
  obtain lu where lu: "fromisoformat (last_update (ledger st)) = Inr lu"
    using assms i ps by (cases "fromisoformat (last_update (ledger st))")
      (simp_all add: add_image_request_def Let_def subscript_def)
  have "i < length (image_vector today (history st))"
  proof (cases "map_of (number_images (history st)) (str_date today)")
    case None
    then show ?thesis using i3 by (simp add: image_vector_def)
  next
    case (Some v)
    then show ?thesis
      using assms i ps lu
      by (cases "i < length v")
         (simp_all add: add_image_request_def Let_def subscript_def image_vector_def
            initialize_all_time_cost_eq)
  qed
  with i ps lu show ?thesis by blast
qed


subsection \<open>What one event does to the ledger\<close>

lemma apply_event_ledger:
  assumes "fst (apply_event cfg today ev st) = None"
  shows "\<exists>lu. fromisoformat (last_update (ledger st)) = Inr lu
           \<and> ledger (snd (apply_event cfg today ev st))
               = rollover today lu (event_cost cfg ev) (history_cost (usage (snd st))) (ledger st)"
proof (cases ev)
  case (ChatTokens tokens)
  with assms have "fst (add_chat_tokens today tokens (cfg_token_price cfg) st) = None"
    by (simp add: apply_event_def)
  from add_chat_tokens_returns [OF this]
  obtain lu where lu: "fromisoformat (last_update (ledger st)) = Inr lu" by blast
  show ?thesis
    using lu by (simp add: ChatTokens apply_event_def add_chat_tokens_step [OF lu]
        ledger_commit event_cost_def)
next
  case (TranscriptionSeconds seconds)
  with assms have "fst (add_transcription_seconds today seconds
                      (cfg_transcription_price cfg) st) = None"
    by (simp add: apply_event_def)
  from add_transcription_seconds_returns [OF this]
  obtain lu where lu: "fromisoformat (last_update (ledger st)) = Inr lu" by blast
  show ?thesis
    using lu by (simp add: TranscriptionSeconds apply_event_def
        add_transcription_seconds_step [OF lu] ledger_commit event_cost_def)
next
  case (ImageRequest image_size)
  with assms have "fst (add_image_request today image_size
                          (PriceList (cfg_image_prices cfg)) st) = None"
    by (simp add: apply_event_def)
  from add_image_request_returns [OF this]
  obtain lu i where lu: "fromisoformat (last_update (ledger st)) = Inr lu"
    and i: "index sizes image_size = Inr i" and ps: "i < length (cfg_image_prices cfg)"
    and v: "i < length (image_vector today (history st))"
    by blast
  show ?thesis
    using lu by (simp add: ImageRequest apply_event_def
        add_image_request_step [OF lu i ps v] ledger_commit event_cost_def i ps)
qed

subsection \<open>Runs of events on one day\<close>

lemma apply_events_Cons_None:
  assumes "fst (apply_events cfg (de # des) st) = None"
  shows "fst (apply_event cfg (fst de) (snd de) st) = None
       \<and> apply_events cfg (de # des) st
           = apply_events cfg des (snd (apply_event cfg (fst de) (snd de) st))"
  using assms by (cases "apply_event cfg (fst de) (snd de) st"; cases "fst (apply_event cfg (fst de) (snd de) st)") auto

lemma same_day_run_day:
  assumes "valid_date today"
    and "fromisoformat (last_update (ledger st)) = Inr today"
    and "fst (apply_events cfg (map (Pair today) evs) st) = None"
  shows "day (ledger (snd (apply_events cfg (map (Pair today) evs) st)))
           = running_sum (day (ledger st)) (map (event_cost cfg) evs)"
  using assms(2,3)
proof (induction evs arbitrary: st)
  case Nil
  then show ?case by (simp add: running_sum_def)
next
  case (Cons ev evs)
  let ?st1 = "snd (apply_event cfg today ev st)"
  have m: "map (Pair today) (ev # evs) = (today, ev) # map (Pair today) evs" by simp
  from apply_events_Cons_None [of cfg "(today, ev)" "map (Pair today) evs" st] Cons.prems(2)
  have ok1: "fst (apply_event cfg today ev st) = None"
    and run: "apply_events cfg ((today, ev) # map (Pair today) evs) st
                = apply_events cfg (map (Pair today) evs) ?st1"
    by simp_all
  from apply_event_ledger [OF ok1] Cons.prems(1)
  have l1: "ledger ?st1 = rollover today today (event_cost cfg ev)
                            (history_cost (usage (snd st))) (ledger st)"
    by auto
  have lu1: "fromisoformat (last_update (ledger ?st1)) = Inr today"
    using Cons.prems(1) by (simp add: l1 last_update_rollover)
  have ok2: "fst (apply_events cfg (map (Pair today) evs) ?st1) = None"
    using Cons.prems(2) unfolding m run .
  from Cons.IH [OF lu1 ok2] show ?case
    unfolding m run by (simp add: l1 day_rollover running_sum_def)
qed

text \<open>
  Claim C1, as the code has it. Let a non-empty run of events, all dated today, be
  applied with one price table and let every call return. Then the day total is the
  running float sum of the costs computed for the events, in the order of the events:
  started from the day total the ledger held when its last update was today, and from
  the cost of the first event when its last update was another day. It is not in
  general the cost derived again from today's history entries: each event's cost is
  rounded on its own, the history keeps the summed quantities only, and float sums are
  rounded at every step.
\<close>

theorem day_total_of_same_day_events:
  assumes valid: "valid_date today"
    and lu: "fromisoformat (last_update (ledger st)) = Inr lu"
    and nonempty: "evs \<noteq> []"
    and ok: "fst (apply_events cfg (map (Pair today) evs) st) = None"
  shows "day (ledger (snd (apply_events cfg (map (Pair today) evs) st)))
           = (if today = lu
              then running_sum (day (ledger st)) (map (event_cost cfg) evs)
              else running_sum (event_cost cfg (hd evs)) (map (event_cost cfg) (tl evs)))"
proof -
  from nonempty obtain ev es where evs: "evs = ev # es" by (cases evs) auto
  let ?st1 = "snd (apply_event cfg today ev st)"
  have m: "map (Pair today) (ev # es) = (today, ev) # map (Pair today) es" by simp
  from apply_events_Cons_None [of cfg "(today, ev)" "map (Pair today) es" st] ok
  have ok1: "fst (apply_event cfg today ev st) = None"
    and run: "apply_events cfg ((today, ev) # map (Pair today) es) st
                = apply_events cfg (map (Pair today) es) ?st1"
    by (simp_all add: evs)
  have ok2: "fst (apply_events cfg (map (Pair today) es) ?st1) = None"
    using ok unfolding evs m run .
  from apply_event_ledger [OF ok1] lu
  have l1: "ledger ?st1 = rollover today lu (event_cost cfg ev)
                            (history_cost (usage (snd st))) (ledger st)"
    by auto
  have lu1: "fromisoformat (last_update (ledger ?st1)) = Inr today"
    using lu fromisoformat_str_date [OF valid] by (simp add: l1 last_update_rollover)
  show ?thesis
    using same_day_run_day [OF valid lu1 ok2]
    unfolding evs m run by (simp add: l1 day_rollover running_sum_def)
qed

lemma example_today_valid: "valid_date (Date 2023 3 14)"
  by code_simp

lemma fresh_state_last_update:
  "fromisoformat (last_update (ledger (fresh_state (Date 2023 3 14)))) = Inr (Date 2023 3 14)"
  by code_simp

lemma example_events_nonempty:
  "[ChatTokens 50000, ChatTokens 100000, ChatTokens 150000] \<noteq> []"
  by simp

lemma example_events_return:
  "fst (apply_events default_prices
          (map (Pair (Date 2023 3 14)) [ChatTokens 50000, ChatTokens 100000, ChatTokens 150000])
          (fresh_state (Date 2023 3 14))) = None"
  by code_simp

lemma example_events_sum:
  "(if Date 2023 3 14 = Date 2023 3 14
    then running_sum (day (ledger (fresh_state (Date 2023 3 14))))
           (map (event_cost default_prices)
              [ChatTokens 50000, ChatTokens 100000, ChatTokens 150000])
    else running_sum
           (event_cost default_prices
              (hd [ChatTokens 50000, ChatTokens 100000, ChatTokens 150000]))
           (map (event_cost default_prices)
              (tl [ChatTokens 50000, ChatTokens 100000, ChatTokens 150000])))
   = fadd (fadd (double (1 / 10)) (double (2 / 10))) (double (3 / 10))"
  by code_simp

text \<open>
  Three chat requests of 50000, 100000 and 150000 tokens at 0.002 per thousand on a
  fresh ledger cost 0.1, 0.2 and 0.3; the day total is the float
  \<^verbatim>\<open>(0.1 + 0.2) + 0.3 = 0.6000000000000001\<close>.
\<close>

theorem day_total_of_same_day_events_witness:
  "valid_date (Date 2023 3 14)
   \<and> fromisoformat (last_update (ledger (fresh_state (Date 2023 3 14)))) = Inr (Date 2023 3 14)
   \<and> [ChatTokens 50000, ChatTokens 100000, ChatTokens 150000] \<noteq> []
   \<and> fst (apply_events default_prices
            (map (Pair (Date 2023 3 14))
               [ChatTokens 50000, ChatTokens 100000, ChatTokens 150000])
            (fresh_state (Date 2023 3 14))) = None
   \<and> day (ledger (snd (apply_events default_prices
            (map (Pair (Date 2023 3 14))
               [ChatTokens 50000, ChatTokens 100000, ChatTokens 150000])
            (fresh_state (Date 2023 3 14)))))
       = fadd (fadd (double (1 / 10)) (double (2 / 10))) (double (3 / 10))"
  using day_total_of_same_day_events
          [OF example_today_valid fresh_state_last_update example_events_nonempty
              example_events_return]
    example_today_valid fresh_state_last_update example_events_nonempty example_events_return
  unfolding example_events_sum
  by blast

text \<open>
  The claim as the specification states it fails: two transcriptions of 40 seconds at
  0.006 per minute cost \<^verbatim>\<open>round(0.004, 2) = 0.0\<close> each, so the day total is 0.0, while
  the 80 seconds of today's history entry cost \<^verbatim>\<open>round(0.008, 2) = 0.01\<close>.
\<close>

theorem day_total_differs_from_history_cost:
  "fst (apply_events default_prices
          [(Date 2023 3 14, TranscriptionSeconds 40), (Date 2023 3 14, TranscriptionSeconds 40)]
          (fresh_state (Date 2023 3 14))) = None
   \<and> day (ledger (snd (apply_events default_prices
          [(Date 2023 3 14, TranscriptionSeconds 40), (Date 2023 3 14, TranscriptionSeconds 40)]
          (fresh_state (Date 2023 3 14))))) = 0
   \<and> todays_history_cost default_prices (Date 2023 3 14)
        (history (snd (apply_events default_prices
          [(Date 2023 3 14, TranscriptionSeconds 40), (Date 2023 3 14, TranscriptionSeconds 40)]
          (fresh_state (Date 2023 3 14))))) = double (1 / 100)"
  by code_simp

text \<open>
  Nor does the equality hold when no cost is changed by rounding: after the three chat
  requests of the example above the day total is \<^verbatim>\<open>0.6000000000000001\<close>, and the
  300000 tokens of today's history entry cost \<^verbatim>\<open>0.6\<close>.
\<close>

lemma day_total_differs_by_float_sum:
  "todays_history_cost default_prices (Date 2023 3 14)
     (history (snd (apply_events default_prices
        (map (Pair (Date 2023 3 14)) [ChatTokens 50000, ChatTokens 100000, ChatTokens 150000])
        (fresh_state (Date 2023 3 14))))) = double (6 / 10)
   \<and> fadd (fadd (double (1 / 10)) (double (2 / 10))) (double (3 / 10)) \<noteq> double (6 / 10)"
  by code_simp

subsection \<open>The all-time cost and the full history\<close>

lemma run_all_time:
  assumes "fst (apply_events cfg des st) = None" and "all_time (ledger st) = Some a"
  shows "all_time (ledger (snd (apply_events cfg des st)))
           = Some (running_sum a (map (\<lambda>de. event_cost cfg (snd de)) des))"
  using assms
proof (induction des arbitrary: st a)
  case Nil
  then show ?case by (simp add: running_sum_def)
next
  case (Cons de des)
  let ?st1 = "snd (apply_event cfg (fst de) (snd de) st)"
  from apply_events_Cons_None [OF Cons.prems(1)]
  have ok1: "fst (apply_event cfg (fst de) (snd de) st) = None"
    and run: "apply_events cfg (de # des) st = apply_events cfg des ?st1"
    by simp_all
  have ok2: "fst (apply_events cfg des ?st1) = None"
    using Cons.prems(1) unfolding run .
  from apply_event_ledger [OF ok1] Cons.prems(2)
  have a1: "all_time (ledger ?st1) = Some (fadd a (event_cost cfg (snd de)))"
    by (auto simp: all_time_rollover)
  from Cons.IH [OF ok2 a1] show ?case
    unfolding run by (simp add: running_sum_def)
qed

text \<open>
  Claim C7, as the code has it. After a non-empty run of events, on any days, every
  call returning, the all-time cost is the running float sum of the costs computed for
  the events, in the order of the events, started from the value before the run: the
  stored one, or, when the key is absent, the sum of the full history (at the default
  prices) taken before the first event's history entry is added. It is not in general
  the cost of the full history summed by \<^verbatim>\<open>initialize_all_time_cost\<close>, since each
  event's cost is rounded on its own, and, float addition being rounded at every step,
  it can differ between two orders of the same events.
\<close>

theorem all_time_of_events:
  assumes ok: "fst (apply_events cfg des st) = None" and nonempty: "des \<noteq> []"
  shows "all_time (ledger (snd (apply_events cfg des st)))
           = Some (running_sum
                     (case all_time (ledger st) of
                        None \<Rightarrow> history_cost (usage (snd st)) | Some a \<Rightarrow> a)
                     (map (\<lambda>de. event_cost cfg (snd de)) des))"
proof -
  from nonempty obtain de des' where des: "des = de # des'" by (cases des) auto
  let ?st1 = "snd (apply_event cfg (fst de) (snd de) st)"
  from apply_events_Cons_None [of cfg de des' st] ok
  have ok1: "fst (apply_event cfg (fst de) (snd de) st) = None"
    and run: "apply_events cfg (de # des') st = apply_events cfg des' ?st1"
    by (simp_all add: des)
  have ok2: "fst (apply_events cfg des' ?st1) = None"
    using ok unfolding des run .
  from apply_event_ledger [OF ok1]
  have a1: "all_time (ledger ?st1)
              = Some (fadd (case all_time (ledger st) of
                              None \<Rightarrow> history_cost (usage (snd st)) | Some a \<Rightarrow> a)
                           (event_cost cfg (snd de)))"
    by (auto simp: all_time_rollover)
  from run_all_time [OF ok2 a1] show ?thesis
    unfolding des run by (simp add: running_sum_def)
qed

lemma example_run_returns:
  "fst (apply_events default_prices
          [(Date 2023 3 14, ChatTokens 1000), (Date 2023 3 15, ImageRequest ''512x512''),
           (Date 2023 4 2, TranscriptionSeconds 100)]
          (fresh_state (Date 2023 3 14))) = None"
  by code_simp

lemma example_run_nonempty:
  "[(Date 2023 3 14, ChatTokens 1000), (Date 2023 3 15, ImageRequest ''512x512''),
    (Date 2023 4 2, TranscriptionSeconds 100)] \<noteq> []"
  by simp

lemma example_run_cost:
  "running_sum
     (case all_time (ledger (fresh_state (Date 2023 3 14))) of
        None \<Rightarrow> history_cost (usage (snd (fresh_state (Date 2023 3 14)))) | Some a \<Rightarrow> a)
     (map (\<lambda>de. event_cost default_prices (snd de))
        [(Date 2023 3 14, ChatTokens 1000), (Date 2023 3 15, ImageRequest ''512x512''),
         (Date 2023 4 2, TranscriptionSeconds 100)])
   = fadd (fadd (double (2 / 1000)) (double (18 / 1000))) (double (1 / 100))"
  by code_simp

text \<open>
  A chat request of 1000 tokens, a medium image and a transcription of 100 seconds, on
  three days of two months, at the default prices on a fresh ledger: the all-time cost
  is the float \<^verbatim>\<open>(0.002 + 0.018) + 0.01\<close>.
\<close>

theorem all_time_of_events_witness:
  "fst (apply_events default_prices
          [(Date 2023 3 14, ChatTokens 1000), (Date 2023 3 15, ImageRequest ''512x512''),
           (Date 2023 4 2, TranscriptionSeconds 100)]
          (fresh_state (Date 2023 3 14))) = None
   \<and> [(Date 2023 3 14, ChatTokens 1000), (Date 2023 3 15, ImageRequest ''512x512''),
       (Date 2023 4 2, TranscriptionSeconds 100)] \<noteq> []
   \<and> all_time (ledger (snd (apply_events default_prices
            [(Date 2023 3 14, ChatTokens 1000), (Date 2023 3 15, ImageRequest ''512x512''),
             (Date 2023 4 2, TranscriptionSeconds 100)]
            (fresh_state (Date 2023 3 14)))))
       = Some (fadd (fadd (double (2 / 1000)) (double (18 / 1000))) (double (1 / 100)))"
  using all_time_of_events [OF example_run_returns example_run_nonempty]
    example_run_returns example_run_nonempty
  unfolding example_run_cost
  by blast

text \<open>
  The claim as the specification states it fails: after two transcriptions of 40
  seconds at the default price on a fresh ledger the all-time cost is 0.0, and the full
  history (80 seconds) sums to \<^verbatim>\<open>round(0.008, 2) = 0.01\<close>.
\<close>

theorem all_time_differs_from_history_sum:
  "fst (apply_events default_prices
          [(Date 2023 3 14, TranscriptionSeconds 40), (Date 2023 3 15, TranscriptionSeconds 40)]
          (fresh_state (Date 2023 3 14))) = None
   \<and> all_time (ledger (snd (apply_events default_prices
          [(Date 2023 3 14, TranscriptionSeconds 40), (Date 2023 3 15, TranscriptionSeconds 40)]
          (fresh_state (Date 2023 3 14))))) = Some 0
   \<and> initialize_all_time_cost (usage (snd (snd (apply_events default_prices
          [(Date 2023 3 14, TranscriptionSeconds 40), (Date 2023 3 15, TranscriptionSeconds 40)]
          (fresh_state (Date 2023 3 14)))))) = Inr (double (1 / 100))"
  by code_simp

text \<open>
  Nor is the all-time cost the same for every order of the same events, or equal to
  the sum of the history when no cost is changed by rounding: transcriptions of 1000,
  2000 and 3000 seconds cost 0.1, 0.2 and 0.3; in this order the all-time cost is
  \<^verbatim>\<open>0.6000000000000001\<close>, in the reverse order it is \<^verbatim>\<open>0.6\<close>, which is also the sum of
  the history.
\<close>

lemma all_time_depends_on_order:
  "all_time (ledger (snd (apply_events default_prices
      (map (Pair (Date 2023 3 14))
         [TranscriptionSeconds 1000, TranscriptionSeconds 2000, TranscriptionSeconds 3000])
      (fresh_state (Date 2023 3 14)))))
     = Some (fadd (fadd (double (1 / 10)) (double (2 / 10))) (double (3 / 10)))
   \<and> all_time (ledger (snd (apply_events default_prices
      (map (Pair (Date 2023 3 14))
         [TranscriptionSeconds 3000, TranscriptionSeconds 2000, TranscriptionSeconds 1000])
      (fresh_state (Date 2023 3 14)))))
     = Some (double (6 / 10))
   \<and> initialize_all_time_cost (usage (snd (snd (apply_events default_prices
      (map (Pair (Date 2023 3 14))
         [TranscriptionSeconds 1000, TranscriptionSeconds 2000, TranscriptionSeconds 3000])
      (fresh_state (Date 2023 3 14)))))) = Inr (double (6 / 10))
   \<and> fadd (fadd (double (1 / 10)) (double (2 / 10))) (double (3 / 10)) \<noteq> double (6 / 10)"
  by code_simp

end
